theory Spec2Isabelle
  imports Complex_Main "HOL-Library.Word" "HOL-Library.Log_Nat"
begin

unbundle bit_operations_syntax

section \<open>Data model of \<^verbatim>\<open>camera_driver.cpp\<close>\<close>

text \<open>
  The driver is one C++ class, \<^verbatim>\<open>CameraDriver\<close>, whose methods mutate its members and
  call into libuvc, ROS logging, the image publisher, the camera-info manager and the
  dynamic-reconfigure server. The embedding passes the members as a record, returns the
  updated record, and returns the calls made to the collaborators as a list of events in
  program order. What a collaborator answers is read from an environment record, so every
  theorem holds for every device behaviour.
\<close>

type_synonym byte = "8 word"
type_synonym uint32 = "32 word"

text \<open>A pointer is \<open>None\<close> when it is \<^verbatim>\<open>NULL\<close> and otherwise names the object it points to.\<close>

type_synonym handle = nat

subsection \<open>C++ \<^verbatim>\<open>double\<close>\<close>

text \<open>
  A finite binary64 value is represented by the rational number it denotes. An arithmetic
  result is the exact result rounded to the nearest number with a 53-bit significand, ties
  to the even significand (the IEEE 754 default). The exponent range is not bounded:
  overflow, subnormal numbers, infinities and NaN are outside the model.
\<close>

type_synonym double = rat

definition pow2 :: "int \<Rightarrow> rat" where
  "pow2 e = (if 0 \<le> e then 2 ^ nat e else 1 / 2 ^ nat (- e))"

definition round_even :: "rat \<Rightarrow> int" where
  "round_even q =
     (let n = \<lfloor>q\<rfloor>; r = q - of_int n
      in if r < 1 / 2 then n else if 1 / 2 < r then n + 1 else if even n then n else n + 1)"

text \<open>\<open>binade x\<close> is the exponent \<open>e\<close> with \<open>2 ^ e \<le> \<bar>x\<bar> < 2 ^ (e + 1)\<close>, for \<open>x \<noteq> 0\<close>.\<close>

definition binade :: "rat \<Rightarrow> int" where
  "binade x =
     (let a = \<bar>x\<bar>
      in if 1 \<le> a then bitlen \<lfloor>a\<rfloor> - 1
         else (let k = bitlen \<lfloor>1 / a\<rfloor>
               in if a * 2 ^ nat (k - 1) = 1 then 1 - k else - k))"

definition round_double :: "rat \<Rightarrow> double" where
  "round_double x =
     (if x = 0 then 0
      else (let u = pow2 (binade x - 52) in of_int (round_even (x / u)) * u))"

text \<open>A decimal literal such as \<^verbatim>\<open>0.0001\<close> is the double nearest to it.\<close>

definition double_literal :: "rat \<Rightarrow> double" where
  "double_literal q = round_double q"

text \<open>The literals \<^verbatim>\<open>0.01\<close> and \<^verbatim>\<open>0.02\<close>.\<close>

definition double_0_01 :: double where
  "double_0_01 = double_literal (1 / 100)"

definition double_0_02 :: double where
  "double_0_02 = double_literal (2 / 100)"

definition double_of_int :: "int \<Rightarrow> double" where
  "double_of_int i = round_double (of_int i)"

definition double_mult :: "double \<Rightarrow> double \<Rightarrow> double" where
  "double_mult x y = round_double (x * y)"

text \<open>
  The conversion \<^verbatim>\<open>int val = (a double)\<close> truncates towards zero; C++ leaves it undefined
  when the truncated value is not an \<^verbatim>\<open>int\<close> (32 bits), which is \<open>None\<close> here.
\<close>

definition int_of_double :: "double \<Rightarrow> int option" where
  "int_of_double x =
     (let t = (if 0 \<le> x then \<lfloor>x\<rfloor> else - \<lfloor>- x\<rfloor>)
      in if - (2 ^ 31) \<le> t \<and> t < 2 ^ 31 then Some t else None)"

text \<open>
  The shift \<^verbatim>\<open>1 << n\<close> on \<^verbatim>\<open>int\<close>: defined for \<open>0 \<le> n < 31\<close>, undefined (\<open>None\<close>)
  for a negative count, a count of the width or more, and a result that is not an \<^verbatim>\<open>int\<close>.
\<close>

definition shl_one :: "int \<Rightarrow> int option" where
  "shl_one n = (if 0 \<le> n \<and> n < 31 then Some (push_bit (nat n) 1) else None)"

text \<open>
  A product of two \<^verbatim>\<open>int\<close>s is the exact product brought back into the 32-bit signed range
  modulo \<open>2 ^ 32\<close>, which is what the compiled code computes (C++ leaves the overflow
  undefined). An \<^verbatim>\<open>int\<close> passed as a \<^verbatim>\<open>size_t\<close> is taken modulo \<open>2 ^ 64\<close>.
\<close>

definition int32_mult :: "int \<Rightarrow> int \<Rightarrow> int" where
  "int32_mult a b = sint (word_of_int (a * b) :: 32 word)"

definition size_t_of_int :: "int \<Rightarrow> nat" where
  "size_t_of_int k = nat (k mod 2 ^ 64)"

subsection \<open>Enumerations\<close>

text \<open>
  Modelled from the spec: the declaration of \<^verbatim>\<open>CameraDriver::State\<close> is in
  \<^verbatim>\<open>camera_driver.h\<close>, which is not among the sources. The spec names the three states
  Initial, Stopped and Running; the source uses them as \<^verbatim>\<open>kInitial\<close>, \<^verbatim>\<open>kStopped\<close>
  and \<^verbatim>\<open>kRunning\<close>.
\<close>

datatype State = kInitial | kStopped | kRunning

text \<open>
  The enumerations of libuvc that the source names. \<^verbatim>\<open>uvc_error_t\<close> keeps the two values
  the source tells apart, and one constructor for every other error code.
\<close>

datatype uvc_error = UVC_SUCCESS | UVC_ERROR_ACCESS | UVC_ERROR_OTHER int

datatype uvc_frame_format =
    UVC_FRAME_FORMAT_UNKNOWN
  | UVC_FRAME_FORMAT_UNCOMPRESSED
  | UVC_FRAME_FORMAT_COMPRESSED
  | UVC_FRAME_FORMAT_YUYV
  | UVC_FRAME_FORMAT_UYVY
  | UVC_FRAME_FORMAT_RGB
  | UVC_FRAME_FORMAT_BGR
  | UVC_FRAME_FORMAT_MJPEG
  | UVC_FRAME_FORMAT_GRAY8
  | UVC_FRAME_FORMAT_OTHER nat

text \<open>libuvc declares each \<^verbatim>\<open>UVC_COLOR_FORMAT_*\<close> as another name of \<^verbatim>\<open>UVC_FRAME_FORMAT_*\<close>.\<close>

abbreviation "UVC_COLOR_FORMAT_UNCOMPRESSED \<equiv> UVC_FRAME_FORMAT_UNCOMPRESSED"
abbreviation "UVC_COLOR_FORMAT_COMPRESSED \<equiv> UVC_FRAME_FORMAT_COMPRESSED"
abbreviation "UVC_COLOR_FORMAT_YUYV \<equiv> UVC_FRAME_FORMAT_YUYV"
abbreviation "UVC_COLOR_FORMAT_UYVY \<equiv> UVC_FRAME_FORMAT_UYVY"
abbreviation "UVC_COLOR_FORMAT_RGB \<equiv> UVC_FRAME_FORMAT_RGB"
abbreviation "UVC_COLOR_FORMAT_BGR \<equiv> UVC_FRAME_FORMAT_BGR"
abbreviation "UVC_COLOR_FORMAT_MJPEG \<equiv> UVC_FRAME_FORMAT_MJPEG"
abbreviation "UVC_COLOR_FORMAT_GRAY8 \<equiv> UVC_FRAME_FORMAT_GRAY8"

datatype uvc_status_class =
    UVC_STATUS_CLASS_CONTROL
  | UVC_STATUS_CLASS_CONTROL_CAMERA
  | UVC_STATUS_CLASS_CONTROL_PROCESSING

datatype uvc_status_attribute =
    UVC_STATUS_ATTRIBUTE_VALUE_CHANGE
  | UVC_STATUS_ATTRIBUTE_INFO_CHANGE
  | UVC_STATUS_ATTRIBUTE_FAILURE_CHANGE
  | UVC_STATUS_ATTRIBUTE_UNKNOWN

text \<open>The libuvc setters that the macro \<^verbatim>\<open>PARAM_INT\<close> pastes together as \<^verbatim>\<open>uvc_set_##fn\<close>.\<close>

datatype uvc_setter =
    uvc_set_scanning_mode
  | uvc_set_ae_mode
  | uvc_set_ae_priority
  | uvc_set_exposure_abs
  | uvc_set_focus_auto
  | uvc_set_focus_abs
  | uvc_set_gain
  | uvc_set_iris_abs
  | uvc_set_brightness

subsection \<open>Records\<close>

text \<open>
  Modelled from the spec: \<^verbatim>\<open>UVCCameraConfig\<close> is generated from a configuration
  description that is not among the sources. The fields are those the source reads or
  writes, which are the ConfigSnapshot fields the spec lists. A field the source uses as
  an integer is an \<^verbatim>\<open>int\<close>, \<open>exposure_absolute\<close> (multiplied by \<^verbatim>\<open>10000\<close> and assigned
  from a product with \<^verbatim>\<open>0.0001\<close>) and \<open>frame_rate\<close> are doubles, \<open>auto_focus\<close> is a bool.
\<close>

record UVCCameraConfig =
  vendor :: string
  product :: string
  serial :: string
  index :: int
  width :: int
  height :: int
  video_mode :: string
  frame_rate :: double
  frame_id :: string
  camera_info_url :: string
  scanning_mode :: int
  auto_exposure :: int
  auto_exposure_priority :: int
  exposure_absolute :: double
  auto_focus :: bool
  focus_absolute :: int
  gain :: int
  iris_absolute :: int
  brightness :: int
  pan_absolute :: int
  tilt_absolute :: int
  white_balance_temperature :: int

text \<open>
  \<^verbatim>\<open>uvc_frame_t\<close>, with the members the source reads: \<open>data\<close> is \<open>None\<close> for a null
  pointer and otherwise the bytes of the buffer it points to.
\<close>

record uvc_frame =
  data :: "byte list option"
  data_bytes :: nat
  frame_format :: uvc_frame_format

text \<open>\<^verbatim>\<open>sensor_msgs::Image\<close> and \<^verbatim>\<open>sensor_msgs::CameraInfo\<close>, with the members the source sets.\<close>

record Image =
  header_frame_id :: string
  header_stamp :: nat
  image_height :: uint32
  image_width :: uint32
  encoding :: string
  step :: uint32
  image_data :: "byte list"

record CameraInfo =
  cinfo_frame_id :: string
  cinfo_stamp :: nat
  calibration :: nat

text \<open>The members of \<^verbatim>\<open>CameraDriver\<close> (their trailing underscore is written \<open>'\<close>).\<close>

record CameraDriver =
  state' :: State
  ctx' :: "handle option"
  dev' :: "handle option"
  devh' :: "handle option"
  rgb_frame' :: "uvc_frame option"
  creation' :: bool
  config_changed' :: bool
  config' :: UVCCameraConfig
  cinfo_manager' :: CameraInfo

subsection \<open>Events, faults and the environment\<close>

text \<open>
  Every call that leaves the driver is an event. A log macro is recorded with its format
  string (the arguments printed into it are left out).
\<close>

definition opening_camera_format :: string where
  "opening_camera_format =
     ''Opening camera with vendor=0x%x, product=0x%x, serial='' @ [CHR 0x22] @ ''%s'' @
     [CHR 0x22] @ '', index=%d''"

definition controls_callback_format :: string where
  "controls_callback_format =
     ''Controls callback. class: %d, event: %d, selector: %d, attr: %d, data_len: %u'' @
     [CHR 0x0A]"

datatype event =
    ROS_DEBUG string
  | ROS_INFO string
  | ROS_WARN string
  | ROS_WARN_THROTTLE string
  | ROS_WARN_ONCE string
  | Call_uvc_init
  | Call_uvc_exit "handle option"
  | Call_uvc_find_device "handle option" int int "string option"
  | Call_uvc_open "handle option"
  | Call_uvc_close "handle option"
  | Call_uvc_unref_device "handle option"
  | Call_uvc_set_status_callback "handle option"
  | Call_uvc_get_stream_ctrl_format_size "handle option" uvc_frame_format int int double
  | Call_uvc_print_diag "handle option"
  | Call_uvc_start_iso_streaming "handle option" nat
  | Call_uvc_free_frame
  | Call_uvc_allocate_frame nat
  | Call_uvc_set uvc_setter "handle option" int
  | Call_uvc_set_pantilt_abs "handle option" int int
  | Call_uvc_yuyv2bgr
  | Call_uvc_mjpeg2rgb
  | Call_uvc_any2bgr
  | Call_loadCameraInfo string
  | Call_data_resize nat
  | Call_publish Image CameraInfo
  | Call_updateConfig UVCCameraConfig

text \<open>
  A fault ends the process: a failed \<^verbatim>\<open>assert\<close> (with the asserted expression), or an
  operation that C++ leaves undefined (with the place).
\<close>

datatype fault = AssertionFailed string | UndefinedBehaviour string

text \<open>
  The environment: the compile-time constants that the source takes from headers which are
  not among the sources (\<^verbatim>\<open>kReconfigureClose\<close> of \<^verbatim>\<open>camera_driver.h\<close>, the two control
  selectors and the flag \<^verbatim>\<open>LIBUVC_HAS_JPEG\<close> of libuvc), and the answers of the
  collaborators. \<open>uvc_init\<close>, \<open>uvc_find_device\<close> and \<open>uvc_open\<close> answer with the error
  code and the object they store through their output pointer on success;
  \<open>uvc_get_stream_ctrl_format_size\<close> with the error code and the negotiated control block; a
  converter with the error code and the output frame as it leaves it; \<open>loadCameraInfo\<close>
  with the camera info that \<^verbatim>\<open>getCameraInfo()\<close> returns from then on.
\<close>

record env =
  kReconfigureClose :: uint32
  LIBUVC_HAS_JPEG :: bool
  UVC_CT_EXPOSURE_TIME_ABSOLUTE_CONTROL :: int
  UVC_PU_WHITE_BALANCE_TEMPERATURE_CONTROL :: int
  strtol :: "string \<Rightarrow> int"
  uvc_init :: "uvc_error \<times> handle"
  uvc_find_device :: "handle option \<Rightarrow> int \<Rightarrow> int \<Rightarrow> string option \<Rightarrow> uvc_error \<times> handle"
  uvc_open :: "handle option \<Rightarrow> uvc_error \<times> handle"
  uvc_get_stream_ctrl_format_size ::
    "handle option \<Rightarrow> uvc_frame_format \<Rightarrow> int \<Rightarrow> int \<Rightarrow> double \<Rightarrow> uvc_error \<times> nat"
  uvc_start_iso_streaming :: "handle option \<Rightarrow> nat \<Rightarrow> uvc_error"
  uvc_allocate_frame :: "nat \<Rightarrow> uvc_frame option"
  uvc_set :: "uvc_setter \<Rightarrow> handle option \<Rightarrow> int \<Rightarrow> uvc_error"
  uvc_set_pantilt_abs :: "handle option \<Rightarrow> int \<Rightarrow> int \<Rightarrow> uvc_error"
  uvc_yuyv2bgr :: "uvc_frame \<Rightarrow> uvc_frame \<Rightarrow> uvc_error \<times> uvc_frame"
  uvc_mjpeg2rgb :: "uvc_frame \<Rightarrow> uvc_frame \<Rightarrow> uvc_error \<times> uvc_frame"
  uvc_any2bgr :: "uvc_frame \<Rightarrow> uvc_frame \<Rightarrow> uvc_error \<times> uvc_frame"
  loadCameraInfo :: "CameraInfo \<Rightarrow> string \<Rightarrow> CameraInfo"

text \<open>Sequencing of steps that may fault: the first fault is the result.\<close>

definition bind_res :: "fault + 'a \<Rightarrow> ('a \<Rightarrow> fault + 'b) \<Rightarrow> fault + 'b" where
  "bind_res m f = (case m of Inl e \<Rightarrow> Inl e | Inr x \<Rightarrow> f x)"

section \<open>The operations\<close>

subsection \<open>\<^verbatim>\<open>CameraDriver::GetVideoMode\<close>\<close>

definition GetVideoMode :: "string \<Rightarrow> uvc_frame_format \<times> event list" where
  "GetVideoMode vmode =
     (if vmode = ''uncompressed'' then (UVC_COLOR_FORMAT_UNCOMPRESSED, [])
      else if vmode = ''compressed'' then (UVC_COLOR_FORMAT_COMPRESSED, [])
      else if vmode = ''yuyv'' then (UVC_COLOR_FORMAT_YUYV, [])
      else if vmode = ''uyvy'' then (UVC_COLOR_FORMAT_UYVY, [])
      else if vmode = ''rgb'' then (UVC_COLOR_FORMAT_RGB, [])
      else if vmode = ''bgr'' then (UVC_COLOR_FORMAT_BGR, [])
      else if vmode = ''mjpeg'' then (UVC_COLOR_FORMAT_MJPEG, [])
      else if vmode = ''gray8'' then (UVC_COLOR_FORMAT_GRAY8, [])
      else (UVC_COLOR_FORMAT_UNCOMPRESSED,
            [ROS_WARN ''Invalid Video Mode: %s, using video mode: uncompressed'']))"

subsection \<open>\<^verbatim>\<open>CameraDriver::CloseCamera\<close> and \<^verbatim>\<open>CameraDriver::OpenCamera\<close>\<close>

definition CloseCamera :: "CameraDriver \<Rightarrow> fault + CameraDriver \<times> event list" where
  "CloseCamera s =
     (if state' s \<noteq> kRunning then Inl (AssertionFailed ''state_ == kRunning'')
      else Inr (s\<lparr>devh' := None, dev' := None, state' := kStopped\<rparr>,
                [Call_uvc_close (devh' s), Call_uvc_unref_device (dev' s)]))"

text \<open>
  \<^verbatim>\<open>OpenCamera\<close> returns early, with the state still \<open>kStopped\<close>, when the device is not
  found, cannot be opened, refuses the format, or does not start streaming.
\<close>

definition OpenCamera ::
  "env \<Rightarrow> CameraDriver \<Rightarrow> UVCCameraConfig \<Rightarrow> fault + CameraDriver \<times> event list" where
  "OpenCamera e s new_config =
     (if state' s \<noteq> kStopped then Inl (AssertionFailed ''state_ == kStopped'')
      else
        (let vendor_id = strtol e (vendor new_config);
             product_id = strtol e (product new_config);
             sn = (if serial new_config = [] then None else Some (serial new_config));
             t1 = [ROS_INFO opening_camera_format,
                   Call_uvc_find_device (ctx' s) vendor_id product_id sn];
             (find_err, d) = uvc_find_device e (ctx' s) vendor_id product_id sn
         in if find_err \<noteq> UVC_SUCCESS then Inr (s, t1 @ [ROS_WARN ''uvc_find_device: %s''])
            else
              (let s1 = s\<lparr>dev' := Some d\<rparr>;
                   t2 = t1 @ [Call_uvc_open (dev' s1)];
                   (open_err, h) = uvc_open e (dev' s1)
               in if open_err \<noteq> UVC_SUCCESS
                  then Inr (s1, t2 @
                         [if open_err = UVC_ERROR_ACCESS
                          then ROS_WARN ''Permission denied opening /dev/bus/usb/%03d/%03d did you set udev rules with permissions?''
                          else ROS_WARN ''Can't open /dev/bus/usb/%03d/%03d: %s (%d) did you set udev rules with permissions?'',
                          Call_uvc_unref_device (dev' s1)])
                  else
                    (let s2 = s1\<lparr>devh' := Some h\<rparr>;
                         (fmt, tg) = GetVideoMode (video_mode new_config);
                         t3 = t2 @ [Call_uvc_set_status_callback (devh' s2)] @ tg @
                              [Call_uvc_get_stream_ctrl_format_size (devh' s2) fmt
                                 (width new_config) (height new_config) (frame_rate new_config)];
                         (mode_err, ctrl) = uvc_get_stream_ctrl_format_size e (devh' s2) fmt
                                 (width new_config) (height new_config) (frame_rate new_config)
                     in if mode_err \<noteq> UVC_SUCCESS
                        then Inr (s2, t3 @
                               [ROS_WARN ''uvc_get_stream_ctrl_format_size: %s'',
                                Call_uvc_close (devh' s2),
                                Call_uvc_unref_device (dev' s2),
                                ROS_WARN ''check video_mode/width/height/frame_rate are available'',
                                Call_uvc_print_diag (devh' s2)])
                        else
                          (let t4 = t3 @ [Call_uvc_start_iso_streaming (devh' s2) ctrl];
                               stream_err = uvc_start_iso_streaming e (devh' s2) ctrl
                           in if stream_err \<noteq> UVC_SUCCESS
                              then Inr (s2, t4 @
                                     [ROS_WARN ''uvc_start_iso_streaming: %s'',
                                      Call_uvc_close (devh' s2),
                                      Call_uvc_unref_device (dev' s2)])
                              else
                                (let t5 = t4 @
                                       (if rgb_frame' s2 \<noteq> None then [Call_uvc_free_frame] else []) @
                                       [Call_uvc_allocate_frame
                                          (size_t_of_int
                                             (int32_mult
                                                (int32_mult (width new_config)
                                                   (height new_config)) 3))];
                                     s3 = s2\<lparr>rgb_frame' :=
                                            uvc_allocate_frame e
                                              (size_t_of_int
                                                 (int32_mult
                                                    (int32_mult (width new_config)
                                                       (height new_config)) 3))\<rparr>
                                 in if rgb_frame' s3 = None
                                    then Inl (AssertionFailed ''rgb_frame_'')
                                    else Inr (s3\<lparr>state' := kRunning\<rparr>, t5)))))))"

subsection \<open>\<^verbatim>\<open>CameraDriver::ReconfigureCallback\<close>\<close>

text \<open>
  One use of the macro \<^verbatim>\<open>PARAM_INT(name, fn, value)\<close>: \<open>get\<close> reads the field \<open>name\<close>,
  \<open>put\<close> assigns it, \<open>val\<close> computes \<^verbatim>\<open>(value)\<close> as an \<^verbatim>\<open>int\<close> from \<^verbatim>\<open>new_config\<close>. The
  macro works on \<^verbatim>\<open>new_config\<close>, which the caller sees afterwards, and on the events so far.
\<close>

definition PARAM_INT ::
  "env \<Rightarrow> CameraDriver \<Rightarrow> string \<Rightarrow> string \<Rightarrow> uvc_setter \<Rightarrow> (UVCCameraConfig \<Rightarrow> 'a) \<Rightarrow>
   ('a \<Rightarrow> UVCCameraConfig \<Rightarrow> UVCCameraConfig) \<Rightarrow> (UVCCameraConfig \<Rightarrow> int option) \<Rightarrow>
   UVCCameraConfig \<times> event list \<Rightarrow> fault + UVCCameraConfig \<times> event list" where
  "PARAM_INT e s warn_msg info_msg fn get put val = (\<lambda>(new_config, tr).
     if get new_config \<noteq> get (config' s) then
       (case val new_config of
          None \<Rightarrow> Inl (UndefinedBehaviour info_msg)
        | Some v \<Rightarrow>
            if uvc_set e fn (devh' s) v \<noteq> UVC_SUCCESS
            then Inr (put (get (config' s)) new_config,
                      tr @ [Call_uvc_set fn (devh' s) v, ROS_WARN warn_msg])
            else Inr (new_config, tr @ [Call_uvc_set fn (devh' s) v, ROS_INFO info_msg]))
     else Inr (new_config, tr))"

text \<open>The pan and tilt block that follows the macro uses.\<close>

definition set_pantilt ::
  "env \<Rightarrow> CameraDriver \<Rightarrow> UVCCameraConfig \<times> event list \<Rightarrow> fault + UVCCameraConfig \<times> event list" where
  "set_pantilt e s = (\<lambda>(new_config, tr).
     if pan_absolute new_config \<noteq> pan_absolute (config' s) \<or>
        tilt_absolute new_config \<noteq> tilt_absolute (config' s) then
       (if uvc_set_pantilt_abs e (devh' s) (pan_absolute new_config) (tilt_absolute new_config)
             \<noteq> UVC_SUCCESS
        then Inr (new_config\<lparr>pan_absolute := pan_absolute (config' s),
                              tilt_absolute := tilt_absolute (config' s)\<rparr>,
                  tr @ [Call_uvc_set_pantilt_abs (devh' s) (pan_absolute new_config)
                          (tilt_absolute new_config),
                        ROS_WARN ''Unable to set pantilt to %d, %d''])
        else Inr (new_config,
                  tr @ [Call_uvc_set_pantilt_abs (devh' s) (pan_absolute new_config)
                          (tilt_absolute new_config)]))
     else Inr (new_config, tr))"

text \<open>
  The body of \<^verbatim>\<open>if (state_ == kRunning) { ... }\<close> up to the assignment to \<^verbatim>\<open>config_\<close>: the
  nine macro uses and the pan and tilt block, in the order of the source.
\<close>

definition set_controls ::
  "env \<Rightarrow> CameraDriver \<Rightarrow> UVCCameraConfig \<Rightarrow> fault + UVCCameraConfig \<times> event list" where
  "set_controls e s new_config =
     bind_res (PARAM_INT e s ''Unable to set scanning_mode to %d'' ''Set scanning_mode to %d''
       uvc_set_scanning_mode scanning_mode (\<lambda>v c. c\<lparr>scanning_mode := v\<rparr>)
       (\<lambda>c. Some (scanning_mode c)) (new_config, [])) (\<lambda>x1.
     bind_res (PARAM_INT e s ''Unable to set auto_exposure to %d'' ''Set auto_exposure to %d''
       uvc_set_ae_mode auto_exposure (\<lambda>v c. c\<lparr>auto_exposure := v\<rparr>)
       (\<lambda>c. shl_one (auto_exposure c)) x1) (\<lambda>x2.
     bind_res (PARAM_INT e s ''Unable to set auto_exposure_priority to %d''
       ''Set auto_exposure_priority to %d''
       uvc_set_ae_priority auto_exposure_priority (\<lambda>v c. c\<lparr>auto_exposure_priority := v\<rparr>)
       (\<lambda>c. Some (auto_exposure_priority c)) x2) (\<lambda>x3.
     bind_res (PARAM_INT e s ''Unable to set exposure_absolute to %d''
       ''Set exposure_absolute to %d''
       uvc_set_exposure_abs exposure_absolute (\<lambda>v c. c\<lparr>exposure_absolute := v\<rparr>)
       (\<lambda>c. int_of_double (double_mult (exposure_absolute c) (double_of_int 10000))) x3) (\<lambda>x4.
     bind_res (PARAM_INT e s ''Unable to set auto_focus to %d'' ''Set auto_focus to %d''
       uvc_set_focus_auto auto_focus (\<lambda>v c. c\<lparr>auto_focus := v\<rparr>)
       (\<lambda>c. Some (if auto_focus c then 1 else 0)) x4) (\<lambda>x5.
     bind_res (PARAM_INT e s ''Unable to set focus_absolute to %d'' ''Set focus_absolute to %d''
       uvc_set_focus_abs focus_absolute (\<lambda>v c. c\<lparr>focus_absolute := v\<rparr>)
       (\<lambda>c. Some (focus_absolute c)) x5) (\<lambda>x6.
     bind_res (PARAM_INT e s ''Unable to set gain to %d'' ''Set gain to %d''
       uvc_set_gain gain (\<lambda>v c. c\<lparr>gain := v\<rparr>)
       (\<lambda>c. Some (gain c)) x6) (\<lambda>x7.
     bind_res (PARAM_INT e s ''Unable to set iris_absolute to %d'' ''Set iris_absolute to %d''
       uvc_set_iris_abs iris_absolute (\<lambda>v c. c\<lparr>iris_absolute := v\<rparr>)
       (\<lambda>c. Some (iris_absolute c)) x7) (\<lambda>x8.
     bind_res (PARAM_INT e s ''Unable to set brightness to %d'' ''Set brightness to %d''
       uvc_set_brightness brightness (\<lambda>v c. c\<lparr>brightness := v\<rparr>)
       (\<lambda>c. Some (brightness c)) x8) (\<lambda>x9.
     set_pantilt e s x9)))))))))"

text \<open>
  \<^verbatim>\<open>new_config\<close> is a reference parameter that the callback may change, so the result
  holds the driver, \<^verbatim>\<open>new_config\<close> as the caller finds it, and the events. The assignment
  \<^verbatim>\<open>config_ = new_config\<close> is the last statement inside \<^verbatim>\<open>if (state_ == kRunning) { ... }\<close>.
\<close>

definition ReconfigureCallback ::
  "env \<Rightarrow> CameraDriver \<Rightarrow> UVCCameraConfig \<Rightarrow> uint32 \<Rightarrow>
   fault + CameraDriver \<times> UVCCameraConfig \<times> event list" where
  "ReconfigureCallback e s new_config level =
     (if creation' s
      then Inr (s\<lparr>config' := new_config\<rparr>, new_config, [ROS_DEBUG ''Setting config''])
      else
        bind_res (if level AND kReconfigureClose e = kReconfigureClose e \<and> state' s = kRunning
                  then CloseCamera s else Inr (s, [])) (\<lambda>(s1, t1).
        bind_res (if state' s1 = kStopped then OpenCamera e s1 new_config else Inr (s1, []))
          (\<lambda>(s2, t2).
        (let (s3, t3) =
               (if camera_info_url new_config \<noteq> camera_info_url (config' s2)
                then (s2\<lparr>cinfo_manager' :=
                            loadCameraInfo e (cinfo_manager' s2) (camera_info_url new_config)\<rparr>,
                      [Call_loadCameraInfo (camera_info_url new_config)])
                else (s2, []))
         in if state' s3 = kRunning
            then bind_res (set_controls e s3 new_config) (\<lambda>(new_config', t4).
                   Inr (s3\<lparr>config' := new_config'\<rparr>, new_config', t1 @ t2 @ t3 @ t4))
            else Inr (s3, new_config, t1 @ t2 @ t3)))))"

subsection \<open>\<^verbatim>\<open>CameraDriver::Start\<close> and \<^verbatim>\<open>CameraDriver::Stop\<close>\<close>

text \<open>
  \<^verbatim>\<open>Start\<close> passes the member \<^verbatim>\<open>config_\<close> itself as \<^verbatim>\<open>new_config\<close>. No step before the
  final assignment changes \<^verbatim>\<open>config_\<close>, and a macro use changes \<^verbatim>\<open>new_config\<close> only where
  it differs from \<^verbatim>\<open>config_\<close>, so passing the value of \<^verbatim>\<open>config_\<close> gives the same run.
\<close>

definition Start :: "env \<Rightarrow> CameraDriver \<Rightarrow> fault + CameraDriver \<times> bool \<times> event list" where
  "Start e s =
     (if state' s \<noteq> kInitial then Inl (AssertionFailed ''state_ == kInitial'')
      else
        (let (err, c) = uvc_init e
         in if err \<noteq> UVC_SUCCESS
            then Inr (s, False, [Call_uvc_init, ROS_WARN ''ERROR: uvc_init: %s''])
            else
              (let s1 = s\<lparr>ctx' := Some c, state' := kStopped, creation' := False\<rparr>
               in bind_res (ReconfigureCallback e s1 (config' s1) 0) (\<lambda>(s2, new_config', t).
                    Inr (s2, state' s2 = kRunning, Call_uvc_init # t)))))"

definition Stop :: "CameraDriver \<Rightarrow> fault + CameraDriver \<times> event list" where
  "Stop s =
     (if state' s = kInitial then Inl (AssertionFailed ''state_ != kInitial'')
      else
        bind_res (if state' s = kRunning then CloseCamera s else Inr (s, [])) (\<lambda>(s1, t1).
          if state' s1 \<noteq> kStopped then Inl (AssertionFailed ''state_ == kStopped'')
          else Inr (s1\<lparr>ctx' := None, state' := kInitial\<rparr>, t1 @ [Call_uvc_exit (ctx' s1)])))"

subsection \<open>\<^verbatim>\<open>CameraDriver::ImageCallback\<close>\<close>

text \<open>
  \<^verbatim>\<open>memcpy(dst, src, n)\<close> into the vector \<open>dst\<close>: the first \<open>n\<close> bytes of \<open>dst\<close> become the
  first \<open>n\<close> bytes of \<open>src\<close>. Copying more bytes than either buffer holds is undefined.
\<close>

definition memcpy :: "byte list \<Rightarrow> byte list \<Rightarrow> nat \<Rightarrow> byte list option" where
  "memcpy dst src n =
     (if n \<le> length dst \<and> n \<le> length src then Some (take n src @ drop n dst) else None)"

definition copy_into :: "Image \<Rightarrow> string \<Rightarrow> byte list \<Rightarrow> nat \<Rightarrow> fault + Image" where
  "copy_into img enc src n =
     (case memcpy (image_data img) src n of
        None \<Rightarrow> Inl (UndefinedBehaviour ''memcpy'')
      | Some d \<Rightarrow> Inr (img\<lparr>encoding := enc, image_data := d\<rparr>))"

text \<open>
  A converter of libuvc writes into \<^verbatim>\<open>rgb_frame_\<close>; on success the image takes the bytes of
  \<^verbatim>\<open>rgb_frame_\<close>, on failure the callback warns and returns (the image is \<open>None\<close>).
\<close>

definition via_rgb_frame ::
  "(uvc_frame \<Rightarrow> uvc_frame \<Rightarrow> uvc_error \<times> uvc_frame) \<Rightarrow> event \<Rightarrow> string \<Rightarrow> string \<Rightarrow>
   uvc_frame \<Rightarrow> uvc_frame \<Rightarrow> Image \<Rightarrow> fault + uvc_frame \<times> Image option \<times> event list" where
  "via_rgb_frame conv call warn_msg enc frame rgb img =
     (let (conv_ret, rgb1) = conv frame rgb
      in if conv_ret \<noteq> UVC_SUCCESS then Inr (rgb1, None, [call, ROS_WARN warn_msg])
         else
           (case data rgb1 of
              None \<Rightarrow> Inl (UndefinedBehaviour ''memcpy'')
            | Some src \<Rightarrow>
                bind_res (copy_into img enc src (data_bytes rgb1)) (\<lambda>img1.
                  Inr (rgb1, Some img1, [call]))))"

text \<open>
  The chain of \<^verbatim>\<open>if (frame->frame_format == ...)\<close>: the result is \<^verbatim>\<open>rgb_frame_\<close> as the
  chain leaves it, the image (or \<open>None\<close> when the callback returns early), and the events.
\<close>

definition convert_frame ::
  "env \<Rightarrow> uvc_frame \<Rightarrow> byte list \<Rightarrow> uvc_frame \<Rightarrow> Image \<Rightarrow>
   fault + uvc_frame \<times> Image option \<times> event list" where
  "convert_frame e frame payload rgb img =
     (if frame_format frame = UVC_FRAME_FORMAT_BGR
      then bind_res (copy_into img ''bgr8'' payload (data_bytes frame)) (\<lambda>img1.
             Inr (rgb, Some img1, []))
      else if frame_format frame = UVC_FRAME_FORMAT_RGB
      then bind_res (copy_into img ''rgb8'' payload (data_bytes frame)) (\<lambda>img1.
             Inr (rgb, Some img1, []))
      else if frame_format frame = UVC_FRAME_FORMAT_UYVY
      then bind_res (copy_into img ''yuv422'' payload (data_bytes frame)) (\<lambda>img1.
             Inr (rgb, Some img1, []))
      else if frame_format frame = UVC_FRAME_FORMAT_YUYV
      then via_rgb_frame (uvc_yuyv2bgr e) Call_uvc_yuyv2bgr
             ''Couldn't convert frame to RGB: %s'' ''bgr8'' frame rgb img
      else if LIBUVC_HAS_JPEG e \<and> frame_format frame = UVC_FRAME_FORMAT_MJPEG
      then via_rgb_frame (uvc_mjpeg2rgb e) Call_uvc_mjpeg2rgb
             ''Couldn't convert frame from MJPEG to RGB: %s'' ''rgb8'' frame rgb img
      else via_rgb_frame (uvc_any2bgr e) Call_uvc_any2bgr
             ''Couldn't convert frame to RGB: %s'' ''bgr8'' frame rgb img)"

text \<open>
  \<^verbatim>\<open>image->width\<close>, \<^verbatim>\<open>image->height\<close> and \<^verbatim>\<open>image->step\<close> are \<^verbatim>\<open>uint32_t\<close>, so the
  products \<^verbatim>\<open>image->width * 3\<close> and \<^verbatim>\<open>image->step * image->height\<close> are taken modulo
  \<open>2 ^ 32\<close>; the comparison with \<^verbatim>\<open>1920*1080*3\<close> is unsigned.
\<close>

definition sized_image :: "UVCCameraConfig \<Rightarrow> Image" where
  "sized_image c =
     (let img = \<lparr>header_frame_id = [], header_stamp = 0, image_height = 0, image_width = 0,
                   encoding = [], step = 0, image_data = []\<rparr>;
          img = img\<lparr>image_width := word_of_int (width c)\<rparr>;
          img = img\<lparr>image_height := word_of_int (height c)\<rparr>
      in img\<lparr>step := image_width img * 3\<rparr>)"

definition requested_bytes :: "UVCCameraConfig \<Rightarrow> uint32" where
  "requested_bytes c = step (sized_image c) * image_height (sized_image c)"

definition ImageCallback ::
  "env \<Rightarrow> CameraDriver \<Rightarrow> uvc_frame \<Rightarrow> nat \<Rightarrow> fault + CameraDriver \<times> event list" where
  "ImageCallback e s frame timestamp =
     (case data frame of
        None \<Rightarrow> Inr (s, [ROS_WARN ''Got NULL''])
      | Some payload \<Rightarrow>
          if state' s \<noteq> kRunning then Inl (AssertionFailed ''state_ == kRunning'')
          else
            (case rgb_frame' s of
               None \<Rightarrow> Inl (AssertionFailed ''rgb_frame_'')
             | Some rgb \<Rightarrow>
                 if width (config' s) = 0 \<or> height (config' s) = 0
                 then Inr (s, [ROS_WARN_THROTTLE
                                 ''width or height config not set properly, skipping images''])
                 else
                   (let img = sized_image (config' s)
                    in if 1920 * 1080 * 3 < step img * image_height img
                       then Inr (s, [ROS_WARN_ONCE
                              ''resize to: %d cannot be done memory requested suspiciously large''])
                       else
                         (let n = unat (step img * image_height img);
                              img1 = img\<lparr>image_data := replicate n 0\<rparr>
                          in bind_res (convert_frame e frame payload rgb img1)
                               (\<lambda>(rgb1, converted, t).
                                  (let s1 = s\<lparr>rgb_frame' := Some rgb1\<rparr>
                                   in case converted of
                                        None \<Rightarrow> Inr (s1, Call_data_resize n # t)
                                      | Some img2 \<Rightarrow>
                                          (let cinfo = cinfo_manager' s1;
                                               img3 = img2\<lparr>header_frame_id :=
                                                          frame_id (config' s1),
                                                          header_stamp := timestamp\<rparr>;
                                               cinfo1 = cinfo\<lparr>cinfo_frame_id :=
                                                          frame_id (config' s1),
                                                          cinfo_stamp := timestamp\<rparr>;
                                               t1 = Call_data_resize n # t @
                                                    [Call_publish img3 cinfo1]
                                           in if config_changed' s1
                                              then Inr (s1\<lparr>config_changed' := False\<rparr>,
                                                        t1 @ [Call_updateConfig (config' s1)])
                                              else Inr (s1, t1))))))))"

subsection \<open>\<^verbatim>\<open>CameraDriver::AutoControlsCallback\<close>\<close>

text \<open>
  \<open>payload\<close> holds the bytes that \<^verbatim>\<open>data\<close> points to. The source reads four bytes (two for
  the white balance) without looking at \<^verbatim>\<open>data_len\<close>; reading past the buffer is undefined.
\<close>

definition AutoControlsCallback ::
  "env \<Rightarrow> CameraDriver \<Rightarrow> uvc_status_class \<Rightarrow> int \<Rightarrow> int \<Rightarrow> uvc_status_attribute \<Rightarrow>
   byte list \<Rightarrow> nat \<Rightarrow> fault + CameraDriver \<times> event list" where
  "AutoControlsCallback e s status_class ev selector status_attribute payload data_len =
     (let t = [ROS_DEBUG controls_callback_format]
      in if status_attribute = UVC_STATUS_ATTRIBUTE_VALUE_CHANGE
         then
           (case status_class of
              UVC_STATUS_CLASS_CONTROL_CAMERA \<Rightarrow>
                if selector = UVC_CT_EXPOSURE_TIME_ABSOLUTE_CONTROL e
                then
                  (if length payload < 4 then Inl (UndefinedBehaviour ''data_char[3]'')
                   else
                     (let exposure_int =
                            (ucast (payload ! 0) OR push_bit 8 (ucast (payload ! 1)) OR
                             push_bit 16 (ucast (payload ! 2)) OR
                             push_bit 24 (ucast (payload ! 3)) :: uint32)
                      in Inr (s\<lparr>config' := (config' s)\<lparr>exposure_absolute :=
                                   double_mult (double_of_int (uint exposure_int))
                                     (double_literal (1 / 10000))\<rparr>,
                                config_changed' := True\<rparr>, t)))
                else Inr (s, t)
            | UVC_STATUS_CLASS_CONTROL_PROCESSING \<Rightarrow>
                if selector = UVC_PU_WHITE_BALANCE_TEMPERATURE_CONTROL e
                then
                  (if length payload < 2 then Inl (UndefinedBehaviour ''data_char[1]'')
                   else
                     Inr (s\<lparr>config' := (config' s)\<lparr>white_balance_temperature :=
                                uint (ucast (payload ! 0) OR push_bit 8 (ucast (payload ! 1))
                                      :: uint32)\<rparr>,
                             config_changed' := True\<rparr>, t))
                else Inr (s, t)
            | UVC_STATUS_CLASS_CONTROL \<Rightarrow> Inr (s, t))
         else Inr (s, t))"

section \<open>Observations on event lists\<close>

text \<open>A control write is a call of a libuvc setter on the device.\<close>

definition is_control_write :: "event \<Rightarrow> bool" where
  "is_control_write ev =
     (case ev of
        Call_uvc_set fn h v \<Rightarrow> True
      | Call_uvc_set_pantilt_abs h p t \<Rightarrow> True
      | _ \<Rightarrow> False)"

definition control_writes :: "event list \<Rightarrow> event list" where
  "control_writes tr = filter is_control_write tr"

text \<open>The images handed to the publisher, and the sizes the output buffer was resized to.\<close>

definition published :: "event list \<Rightarrow> (Image \<times> CameraInfo) list" where
  "published tr =
     concat (map (\<lambda>ev. case ev of Call_publish i c \<Rightarrow> [(i, c)] | _ \<Rightarrow> []) tr)"

definition resizes :: "event list \<Rightarrow> nat list" where
  "resizes tr = concat (map (\<lambda>ev. case ev of Call_data_resize n \<Rightarrow> [n] | _ \<Rightarrow> []) tr)"

text \<open>
  The payload of a frame: the first \<open>data_bytes\<close> bytes of the buffer \<open>data\<close> points to.
\<close>

definition frame_payload :: "uvc_frame \<Rightarrow> byte list" where
  "frame_payload frame = (case data frame of None \<Rightarrow> [] | Some b \<Rightarrow> take (data_bytes frame) b)"

section \<open>The committed snapshot, in the words of the spec\<close>

text \<open>
  Section 4.3 of the spec (Control Parameter Sync): for each control field, skip it if it is
  unchanged; compute the device-level integer encoding (the exposure time in
  ten-thousandths of a second, the auto-exposure mode as the bit \<^verbatim>\<open>1 << mode\<close>, the
  boolean focus-auto as 0 or 1); attempt to write it; on rejection revert the field in the
  snapshot to be committed to its old value. Pan and tilt are written together when either
  changes, and a rejection reverts both.
\<close>

definition encode_control :: "uvc_setter \<Rightarrow> UVCCameraConfig \<Rightarrow> int option" where
  "encode_control fn c =
     (case fn of
        uvc_set_scanning_mode \<Rightarrow> Some (scanning_mode c)
      | uvc_set_ae_mode \<Rightarrow> shl_one (auto_exposure c)
      | uvc_set_ae_priority \<Rightarrow> Some (auto_exposure_priority c)
      | uvc_set_exposure_abs \<Rightarrow>
          int_of_double (double_mult (exposure_absolute c) (double_of_int 10000))
      | uvc_set_focus_auto \<Rightarrow> Some (if auto_focus c then 1 else 0)
      | uvc_set_focus_abs \<Rightarrow> Some (focus_absolute c)
      | uvc_set_gain \<Rightarrow> Some (gain c)
      | uvc_set_iris_abs \<Rightarrow> Some (iris_absolute c)
      | uvc_set_brightness \<Rightarrow> Some (brightness c))"

definition rejected :: "env \<Rightarrow> handle option \<Rightarrow> uvc_setter \<Rightarrow> UVCCameraConfig \<Rightarrow> bool" where
  "rejected e h fn c =
     (case encode_control fn c of None \<Rightarrow> False | Some v \<Rightarrow> uvc_set e fn h v \<noteq> UVC_SUCCESS)"

definition pantilt_rejected :: "env \<Rightarrow> handle option \<Rightarrow> UVCCameraConfig \<Rightarrow> bool" where
  "pantilt_rejected e h c =
     (uvc_set_pantilt_abs e h (pan_absolute c) (tilt_absolute c) \<noteq> UVC_SUCCESS)"

definition committed_snapshot ::
  "env \<Rightarrow> handle option \<Rightarrow> UVCCameraConfig \<Rightarrow> UVCCameraConfig \<Rightarrow> UVCCameraConfig" where
  "committed_snapshot e h old new = new
     \<lparr>scanning_mode :=
        (if scanning_mode new \<noteq> scanning_mode old \<and> rejected e h uvc_set_scanning_mode new
         then scanning_mode old else scanning_mode new),
      auto_exposure :=
        (if auto_exposure new \<noteq> auto_exposure old \<and> rejected e h uvc_set_ae_mode new
         then auto_exposure old else auto_exposure new),
      auto_exposure_priority :=
        (if auto_exposure_priority new \<noteq> auto_exposure_priority old \<and>
            rejected e h uvc_set_ae_priority new
         then auto_exposure_priority old else auto_exposure_priority new),
      exposure_absolute :=
        (if exposure_absolute new \<noteq> exposure_absolute old \<and>
            rejected e h uvc_set_exposure_abs new
         then exposure_absolute old else exposure_absolute new),
      auto_focus :=
        (if auto_focus new \<noteq> auto_focus old \<and> rejected e h uvc_set_focus_auto new
         then auto_focus old else auto_focus new),
      focus_absolute :=
        (if focus_absolute new \<noteq> focus_absolute old \<and> rejected e h uvc_set_focus_abs new
         then focus_absolute old else focus_absolute new),
      gain :=
        (if gain new \<noteq> gain old \<and> rejected e h uvc_set_gain new
         then gain old else gain new),
      iris_absolute :=
        (if iris_absolute new \<noteq> iris_absolute old \<and> rejected e h uvc_set_iris_abs new
         then iris_absolute old else iris_absolute new),
      brightness :=
        (if brightness new \<noteq> brightness old \<and> rejected e h uvc_set_brightness new
         then brightness old else brightness new),
      pan_absolute :=
        (if (pan_absolute new \<noteq> pan_absolute old \<or> tilt_absolute new \<noteq> tilt_absolute old) \<and>
            pantilt_rejected e h new
         then pan_absolute old else pan_absolute new),
      tilt_absolute :=
        (if (pan_absolute new \<noteq> pan_absolute old \<or> tilt_absolute new \<noteq> tilt_absolute old) \<and>
            pantilt_rejected e h new
         then tilt_absolute old else tilt_absolute new)\<rparr>"

section \<open>Concrete inputs\<close>

text \<open>
  A two by one pixel camera: a snapshot, a driver that is streaming with it, a device that
  accepts every request, the same device after it was unplugged, a device that rejects
  every control write, and BGR frames. \<open>strtol\<close> answers as the C library does on the two
  identifiers of the snapshot (\<^verbatim>\<open>0x046d\<close> is 1133, \<^verbatim>\<open>0x0825\<close> is 2085).
\<close>

definition ex_config :: UVCCameraConfig where
  "ex_config =
     \<lparr>vendor = ''0x046d'', product = ''0x0825'', serial = [], index = 0, width = 2, height = 1,
      video_mode = ''bgr'', frame_rate = 15, frame_id = ''camera'', camera_info_url = [],
      scanning_mode = 0, auto_exposure = 3, auto_exposure_priority = 0,
      exposure_absolute = double_0_01, auto_focus = True, focus_absolute = 0,
      gain = 0, iris_absolute = 0, brightness = 0, pan_absolute = 0, tilt_absolute = 0,
      white_balance_temperature = 0\<rparr>"

definition ex_driver :: CameraDriver where
  "ex_driver =
     \<lparr>state' = kRunning, ctx' = Some 1, dev' = Some 2, devh' = Some 3,
      rgb_frame' = Some \<lparr>data = Some [0, 0, 0, 0, 0, 0], data_bytes = 6,
                          frame_format = UVC_FRAME_FORMAT_UNKNOWN\<rparr>,
      creation' = False, config_changed' = False, config' = ex_config,
      cinfo_manager' = \<lparr>cinfo_frame_id = [], cinfo_stamp = 0, calibration = 0\<rparr>\<rparr>"

text \<open>
  The driver as the constructor and the first call of the configuration callback leave it.
\<close>

definition ex_initial_driver :: CameraDriver where
  "ex_initial_driver =
     \<lparr>state' = kInitial, ctx' = None, dev' = None, devh' = None, rgb_frame' = None,
      creation' = True, config_changed' = False, config' = ex_config,
      cinfo_manager' = \<lparr>cinfo_frame_id = [], cinfo_stamp = 0, calibration = 0\<rparr>\<rparr>"

text \<open>The snapshot with another size, and the snapshot with the exposure of \<^verbatim>\<open>0.02\<close>.\<close>

definition ex_resized_config :: UVCCameraConfig where
  "ex_resized_config = ex_config\<lparr>width := 4, height := 2\<rparr>"

definition ex_exposure_config :: UVCCameraConfig where
  "ex_exposure_config = ex_config\<lparr>exposure_absolute := double_0_02\<rparr>"

definition ex_driver_oversized :: CameraDriver where
  "ex_driver_oversized = ex_driver\<lparr>config' := ex_config\<lparr>width := 1921, height := 1080\<rparr>\<rparr>"

text \<open>
  A snapshot whose width times three does not fit 32 bits: \<open>1431655766 * 3\<close> is
  \<open>2 ^ 32 + 2\<close>.
\<close>

definition ex_driver_wrapping :: CameraDriver where
  "ex_driver_wrapping = ex_driver\<lparr>config' := ex_config\<lparr>width := 1431655766, height := 1\<rparr>\<rparr>"

definition ex_driver_unsized :: CameraDriver where
  "ex_driver_unsized = ex_driver\<lparr>config' := ex_config\<lparr>width := 0, height := 0\<rparr>\<rparr>"

definition ex_env :: env where
  "ex_env =
     \<lparr>kReconfigureClose = 3, LIBUVC_HAS_JPEG = False,
      UVC_CT_EXPOSURE_TIME_ABSOLUTE_CONTROL = 4, UVC_PU_WHITE_BALANCE_TEMPERATURE_CONTROL = 10,
      strtol = (\<lambda>str. if str = ''0x046d'' then 1133 else if str = ''0x0825'' then 2085 else 0),
      uvc_init = (UVC_SUCCESS, 1),
      uvc_find_device = (\<lambda>c v p sn. (UVC_SUCCESS, 2)),
      uvc_open = (\<lambda>d. (UVC_SUCCESS, 3)),
      uvc_get_stream_ctrl_format_size = (\<lambda>h f w ht r. (UVC_SUCCESS, 0)),
      uvc_start_iso_streaming = (\<lambda>h c. UVC_SUCCESS),
      uvc_allocate_frame = (\<lambda>n. Some \<lparr>data = Some (replicate n 0), data_bytes = n,
                                        frame_format = UVC_FRAME_FORMAT_UNKNOWN\<rparr>),
      uvc_set = (\<lambda>fn h v. UVC_SUCCESS),
      uvc_set_pantilt_abs = (\<lambda>h p t. UVC_SUCCESS),
      uvc_yuyv2bgr = (\<lambda>f out. (UVC_ERROR_OTHER (- 50), out)),
      uvc_mjpeg2rgb = (\<lambda>f out. (UVC_ERROR_OTHER (- 50), out)),
      uvc_any2bgr = (\<lambda>f out. (UVC_ERROR_OTHER (- 50), out)),
      loadCameraInfo = (\<lambda>c url. c)\<rparr>"

definition ex_env_unplugged :: env where
  "ex_env_unplugged = ex_env\<lparr>uvc_find_device := (\<lambda>c v p sn. (UVC_ERROR_OTHER (- 4), 0))\<rparr>"

definition ex_env_rejecting :: env where
  "ex_env_rejecting = ex_env\<lparr>uvc_set := (\<lambda>fn h v. UVC_ERROR_OTHER (- 9))\<rparr>"

definition ex_frame :: uvc_frame where
  "ex_frame = \<lparr>data = Some [1, 2, 3, 4, 5, 6], data_bytes = 6,
               frame_format = UVC_FRAME_FORMAT_BGR\<rparr>"

definition ex_tiny_frame :: uvc_frame where
  "ex_tiny_frame = \<lparr>data = Some [1, 2], data_bytes = 2, frame_format = UVC_FRAME_FORMAT_BGR\<rparr>"

definition ex_short_frame :: uvc_frame where
  "ex_short_frame = \<lparr>data = Some [1, 2, 3], data_bytes = 3,
                     frame_format = UVC_FRAME_FORMAT_BGR\<rparr>"

section \<open>Basic facts\<close>

lemma double_10000_times_0_0001:
  "double_mult (double_of_int 10000) (double_literal (1 / 10000)) = 1"
  by code_simp

lemma double_0_02_times_10000:
  "int_of_double (double_mult double_0_02 (double_of_int 10000)) = Some 200"
  by code_simp

lemma double_0_01_neq_0_02: "double_0_01 \<noteq> double_0_02" "double_0_02 \<noteq> double_0_01"
  by code_simp+

text \<open>
  The rounding is visible: \<^verbatim>\<open>0.0029 * 10000\<close> is just below 29 in double arithmetic and
  truncates to 28.
\<close>

lemma double_0_0029_times_10000:
  "int_of_double (double_mult (double_literal (29 / 10000)) (double_of_int 10000)) = Some 28"
  by code_simp

text \<open>
  The size passed to \<^verbatim>\<open>uvc_allocate_frame\<close>: 6 for the two by one pixel camera, and
  \<open>4800000000 - 2 ^ 32\<close> for 40000 by 40000 pixels.
\<close>

lemma allocation_size_2x1: "size_t_of_int (int32_mult (int32_mult 2 1) 3) = 6"
  by (simp add: int32_mult_def size_t_of_int_def)

lemma allocation_size_wraps:
  "size_t_of_int (int32_mult (int32_mult 40000 40000) 3) = 505032704"
  by (simp add: int32_mult_def size_t_of_int_def)

lemma CloseCamera_running:
  "state' s = kRunning \<Longrightarrow>
   CloseCamera s = Inr (s\<lparr>devh' := None, dev' := None, state' := kStopped\<rparr>,
                        [Call_uvc_close (devh' s), Call_uvc_unref_device (dev' s)])"
  by (simp add: CloseCamera_def)

subsection \<open>The frame callback\<close>

lemma sized_image_fields:
  "step (sized_image c) = word_of_int (width c) * 3"
  "image_width (sized_image c) = word_of_int (width c)"
  "image_height (sized_image c) = word_of_int (height c)"
  "image_data (sized_image c) = []"
  by (simp_all add: sized_image_def Let_def)

lemma uint_word_of_int_small:
  "0 \<le> k \<Longrightarrow> k < 2 ^ 32 \<Longrightarrow> uint (word_of_int k :: uint32) = k"
  by (simp add: uint_word_of_int)

lemma requested_bytes_exact:
  assumes "0 \<le> width c" "0 \<le> height c" "width c * 3 * height c < 2 ^ 32"
  shows "uint (requested_bytes c) = width c * 3 * height c"
proof -
  define k where "k = width c * 3 * height c"
  have "requested_bytes c = word_of_int k"
    by (simp add: requested_bytes_def sized_image_fields k_def)
  moreover have "0 \<le> k"
    using assms(1,2) by (simp add: k_def)
  moreover have "k < 2 ^ 32"
    using assms(3) by (simp add: k_def)
  ultimately show ?thesis
    using uint_word_of_int_small [of k] by (simp add: k_def)
qed

lemma step_exact:
  assumes "0 \<le> width c" "width c * 3 < 2 ^ 32"
  shows "uint (step (sized_image c)) = width c * 3"
proof -
  define k where "k = width c * 3"
  have "step (sized_image c) = word_of_int k"
    by (simp add: sized_image_fields k_def)
  moreover have "0 \<le> k" "k < 2 ^ 32"
    using assms by (simp_all add: k_def)
  ultimately show ?thesis
    using uint_word_of_int_small [of k] by (simp add: k_def)
qed

lemma published_simps:
  "published [] = []"
  "published (xs @ ys) = published xs @ published ys"
  "published (ev # xs) = (case ev of Call_publish i c \<Rightarrow> [(i, c)] | _ \<Rightarrow> []) @ published xs"
  by (simp_all add: published_def)

lemma resizes_simps:
  "resizes [] = []"
  "resizes (xs @ ys) = resizes xs @ resizes ys"
  "resizes (ev # xs) = (case ev of Call_data_resize n \<Rightarrow> [n] | _ \<Rightarrow> []) @ resizes xs"
  by (simp_all add: resizes_def)

lemma copy_into_Inr:
  "copy_into img enc src n = Inr img1 \<Longrightarrow>
   img1 = img\<lparr>encoding := enc, image_data := take n src @ drop n (image_data img)\<rparr> \<and>
   n \<le> length (image_data img) \<and> n \<le> length src"
  by (auto simp: copy_into_def memcpy_def split: if_splits)

lemma via_rgb_frame_Inr:
  "via_rgb_frame conv call w enc frame rgb img = Inr (rgb1, Some img1, t) \<Longrightarrow>
   length (image_data img1) = length (image_data img) \<and> step img1 = step img \<and>
   image_width img1 = image_width img \<and> image_height img1 = image_height img \<and> t = [call]"
  by (auto simp: via_rgb_frame_def bind_res_def Let_def
           split: prod.splits if_splits option.splits sum.splits dest!: copy_into_Inr)

lemma via_rgb_frame_None:
  "via_rgb_frame conv call w enc frame rgb img = Inr (rgb1, None, t) \<Longrightarrow>
   t = [call, ROS_WARN w]"
  by (auto simp: via_rgb_frame_def bind_res_def Let_def
           split: prod.splits if_splits option.splits sum.splits)

lemma convert_frame_Some:
  assumes "convert_frame e frame payload rgb img = Inr (rgb1, Some img1, t)"
  shows "length (image_data img1) = length (image_data img) \<and> step img1 = step img \<and>
   image_width img1 = image_width img \<and> image_height img1 = image_height img \<and>
   published t = [] \<and> resizes t = []"
  using assms
  by (auto simp: convert_frame_def bind_res_def published_simps resizes_simps
           split: if_splits sum.splits dest!: copy_into_Inr via_rgb_frame_Inr)

lemma convert_frame_None:
  assumes "convert_frame e frame payload rgb img = Inr (rgb1, None, t)"
  shows "published t = [] \<and> resizes t = []"
  using assms
  by (auto simp: convert_frame_def bind_res_def published_simps resizes_simps
           split: if_splits sum.splits dest!: via_rgb_frame_None)

lemma ImageCallback_publishedE:
  assumes "ImageCallback e s frame ts = Inr (s1, tr)" "(i, c) \<in> set (published tr)"
  obtains payload rgb rgb1 img1 t where
    "data frame = Some payload" "rgb_frame' s = Some rgb" "state' s = kRunning"
    "width (config' s) \<noteq> 0" "height (config' s) \<noteq> 0"
    "\<not> 1920 * 1080 * 3 < requested_bytes (config' s)"
    "convert_frame e frame payload rgb
       ((sized_image (config' s))\<lparr>image_data :=
          replicate (unat (requested_bytes (config' s))) 0\<rparr>) = Inr (rgb1, Some img1, t)"
    "i = img1\<lparr>header_frame_id := frame_id (config' s), header_stamp := ts\<rparr>"
proof -
  from assms obtain payload rgb where
    d: "data frame = Some payload" and r: "rgb_frame' s = Some rgb" and
    run: "state' s = kRunning" and
    nz: "width (config' s) \<noteq> 0" "height (config' s) \<noteq> 0" and
    le: "\<not> 1920 * 1080 * 3 < requested_bytes (config' s)"
    by (auto simp: ImageCallback_def Let_def requested_bytes_def published_simps
             split: option.splits if_splits)
  define img0 where
    "img0 = (sized_image (config' s))\<lparr>image_data :=
               replicate (unat (requested_bytes (config' s))) 0\<rparr>"
  from assms(1) d r run nz le obtain rgb1 conv t where
    c: "convert_frame e frame payload rgb img0 = Inr (rgb1, conv, t)"
    by (auto simp: ImageCallback_def Let_def requested_bytes_def bind_res_def img0_def
             split: sum.splits)
  show ?thesis
  proof (cases conv)
    case None
    with assms c d r run nz le convert_frame_None [OF c [unfolded None]] show ?thesis
      by (auto simp: ImageCallback_def Let_def requested_bytes_def bind_res_def img0_def
            published_simps)
  next
    case (Some img1)
    with assms c d r run nz le convert_frame_Some [OF c [unfolded Some]]
    have "i = img1\<lparr>header_frame_id := frame_id (config' s), header_stamp := ts\<rparr>"
      by (auto simp: ImageCallback_def Let_def requested_bytes_def bind_res_def img0_def
            published_simps split: if_splits)
    with that d r run nz le c Some show ?thesis
      by (simp add: img0_def)
  qed
qed

lemma ImageCallback_published:
  assumes "ImageCallback e s frame ts = Inr (s1, tr)" "(i, c) \<in> set (published tr)"
  shows "length (image_data i) = unat (requested_bytes (config' s)) \<and>
         step i = step (sized_image (config' s)) \<and>
         image_width i = image_width (sized_image (config' s)) \<and>
         image_height i = image_height (sized_image (config' s))"
  using assms by (elim ImageCallback_publishedE) (auto dest!: convert_frame_Some)

lemma ImageCallback_resizes:
  assumes "ImageCallback e s frame ts = Inr (s1, tr)" "n \<in> set (resizes tr)"
  shows "n = unat (requested_bytes (config' s)) \<and>
         \<not> 1920 * 1080 * 3 < requested_bytes (config' s)"
proof -
  from assms obtain payload rgb where
    d: "data frame = Some payload" and r: "rgb_frame' s = Some rgb" and
    run: "state' s = kRunning" and
    nz: "width (config' s) \<noteq> 0" "height (config' s) \<noteq> 0" and
    le: "\<not> 1920 * 1080 * 3 < requested_bytes (config' s)"
    by (auto simp: ImageCallback_def Let_def requested_bytes_def resizes_simps
             split: option.splits if_splits)
  define img0 where
    "img0 = (sized_image (config' s))\<lparr>image_data :=
               replicate (unat (requested_bytes (config' s))) 0\<rparr>"
  from assms(1) d r run nz le obtain rgb1 conv t where
    c: "convert_frame e frame payload rgb img0 = Inr (rgb1, conv, t)"
    by (auto simp: ImageCallback_def Let_def requested_bytes_def bind_res_def img0_def
             split: sum.splits)
  have "resizes t = []"
    using c convert_frame_None convert_frame_Some by (cases conv) blast+
  with assms c d r run nz le show ?thesis
    by (auto simp: ImageCallback_def Let_def requested_bytes_def bind_res_def img0_def
          resizes_simps split: option.splits if_splits)
qed

lemma convert_frame_BGR:
  assumes "convert_frame e frame payload rgb img = Inr (rgb1, Some img1, t)"
    and "frame_format frame = UVC_FRAME_FORMAT_BGR"
  shows "encoding img1 = ''bgr8'' \<and> data_bytes frame \<le> length (image_data img) \<and>
         data_bytes frame \<le> length payload \<and>
         image_data img1 = take (data_bytes frame) payload @
                           drop (data_bytes frame) (image_data img)"
  using assms
  by (auto simp: convert_frame_def bind_res_def split: sum.splits dest!: copy_into_Inr)

lemma requested_bytes_zero:
  "width c = 0 \<or> height c = 0 \<Longrightarrow> requested_bytes c = 0"
  by (auto simp: requested_bytes_def sized_image_fields)

lemma replicate_6: "replicate 6 (0 :: byte) = [0, 0, 0, 0, 0, 0]"
  by code_simp

lemma replicate_3: "replicate 3 (0 :: byte) = [0, 0, 0]"
  by code_simp

lemma replicate_2: "replicate 2 (0 :: byte) = [0, 0]"
  by code_simp

lemma ImageCallback_ex_frame:
  "ImageCallback ex_env ex_driver ex_frame 7 =
     Inr (ex_driver,
          [Call_data_resize 6,
           Call_publish
             \<lparr>header_frame_id = ''camera'', header_stamp = 7, image_height = 1, image_width = 2,
              encoding = ''bgr8'', step = 6, image_data = [1, 2, 3, 4, 5, 6]\<rparr>
             \<lparr>cinfo_frame_id = ''camera'', cinfo_stamp = 7, calibration = 0\<rparr>])"
  by (simp add: ImageCallback_def ex_env_def ex_driver_def ex_frame_def ex_config_def
        sized_image_def convert_frame_def copy_into_def memcpy_def bind_res_def Let_def
        replicate_6)

lemma ImageCallback_ex_short_frame:
  "ImageCallback ex_env ex_driver ex_short_frame 7 =
     Inr (ex_driver,
          [Call_data_resize 6,
           Call_publish
             \<lparr>header_frame_id = ''camera'', header_stamp = 7, image_height = 1, image_width = 2,
              encoding = ''bgr8'', step = 6, image_data = [1, 2, 3, 0, 0, 0]\<rparr>
             \<lparr>cinfo_frame_id = ''camera'', cinfo_stamp = 7, calibration = 0\<rparr>])"
  by (simp add: ImageCallback_def ex_env_def ex_driver_def ex_short_frame_def ex_config_def
        sized_image_def convert_frame_def copy_into_def memcpy_def bind_res_def Let_def
        replicate_6)

subsection \<open>The configuration callback\<close>

lemma control_writes_simps:
  "control_writes [] = []"
  "control_writes (xs @ ys) = control_writes xs @ control_writes ys"
  "control_writes (ev # xs) = (if is_control_write ev then [ev] else []) @ control_writes xs"
  by (simp_all add: control_writes_def)

lemma bind_res_InrE:
  assumes "bind_res m f = Inr y"
  obtains x where "m = Inr x" "f x = Inr y"
  using assms by (cases m) (simp_all add: bind_res_def)

lemma GetVideoMode_no_control_write: "control_writes (snd (GetVideoMode v)) = []"
  by (simp add: GetVideoMode_def control_writes_simps is_control_write_def)

lemma OpenCamera_Inr:
  assumes "OpenCamera e s nc = Inr (s1, t)"
  shows "control_writes t = [] \<and> config' s1 = config' s \<and> creation' s1 = creation' s \<and>
         config_changed' s1 = config_changed' s \<and> cinfo_manager' s1 = cinfo_manager' s \<and>
         ctx' s1 = ctx' s \<and> (state' s1 = kStopped \<or> state' s1 = kRunning)"
  using assms
  by (simp add: OpenCamera_def Let_def split_beta split: if_splits)
     (auto simp: control_writes_simps is_control_write_def GetVideoMode_no_control_write)

lemma rejected_simps:
  "rejected e h uvc_set_scanning_mode c = (uvc_set e uvc_set_scanning_mode h (scanning_mode c) \<noteq> UVC_SUCCESS)"
  "rejected e h uvc_set_ae_mode c =
     (case shl_one (auto_exposure c) of None \<Rightarrow> False
      | Some v \<Rightarrow> uvc_set e uvc_set_ae_mode h v \<noteq> UVC_SUCCESS)"
  "rejected e h uvc_set_ae_priority c =
     (uvc_set e uvc_set_ae_priority h (auto_exposure_priority c) \<noteq> UVC_SUCCESS)"
  "rejected e h uvc_set_exposure_abs c =
     (case int_of_double (double_mult (exposure_absolute c) (double_of_int 10000)) of
        None \<Rightarrow> False | Some v \<Rightarrow> uvc_set e uvc_set_exposure_abs h v \<noteq> UVC_SUCCESS)"
  "rejected e h uvc_set_focus_auto c =
     (uvc_set e uvc_set_focus_auto h (if auto_focus c then 1 else 0) \<noteq> UVC_SUCCESS)"
  "rejected e h uvc_set_focus_abs c = (uvc_set e uvc_set_focus_abs h (focus_absolute c) \<noteq> UVC_SUCCESS)"
  "rejected e h uvc_set_gain c = (uvc_set e uvc_set_gain h (gain c) \<noteq> UVC_SUCCESS)"
  "rejected e h uvc_set_iris_abs c = (uvc_set e uvc_set_iris_abs h (iris_absolute c) \<noteq> UVC_SUCCESS)"
  "rejected e h uvc_set_brightness c = (uvc_set e uvc_set_brightness h (brightness c) \<noteq> UVC_SUCCESS)"
  by (simp_all add: rejected_def encode_control_def)

lemma PARAM_INT_Inr:
  assumes "PARAM_INT e s w i fn get put val x = Inr y"
    and "\<And>c. put (get c) c = c"
  shows "fst y = put (if get (fst x) \<noteq> get (config' s) \<and>
                         (case val (fst x) of None \<Rightarrow> False
                          | Some v \<Rightarrow> uvc_set e fn (devh' s) v \<noteq> UVC_SUCCESS)
                      then get (config' s) else get (fst x)) (fst x)"
  using assms
  by (cases x) (auto simp: PARAM_INT_def split: if_splits option.splits)

lemma set_pantilt_Inr:
  assumes "set_pantilt e s x = Inr y"
  shows "fst y = (fst x)
     \<lparr>pan_absolute :=
        (if (pan_absolute (fst x) \<noteq> pan_absolute (config' s) \<or>
             tilt_absolute (fst x) \<noteq> tilt_absolute (config' s)) \<and>
            uvc_set_pantilt_abs e (devh' s) (pan_absolute (fst x)) (tilt_absolute (fst x))
              \<noteq> UVC_SUCCESS
         then pan_absolute (config' s) else pan_absolute (fst x)),
      tilt_absolute :=
        (if (pan_absolute (fst x) \<noteq> pan_absolute (config' s) \<or>
             tilt_absolute (fst x) \<noteq> tilt_absolute (config' s)) \<and>
            uvc_set_pantilt_abs e (devh' s) (pan_absolute (fst x)) (tilt_absolute (fst x))
              \<noteq> UVC_SUCCESS
         then tilt_absolute (config' s) else tilt_absolute (fst x))\<rparr>"
  using assms
  by (cases x) (auto simp: set_pantilt_def split: if_splits)

lemma set_controls_committed:
  assumes "set_controls e s nc = Inr (nc1, t)"
  shows "nc1 = committed_snapshot e (devh' s) (config' s) nc"
  using assms unfolding set_controls_def
proof (elim bind_res_InrE)
  fix x1 x2 x3 x4 x5 x6 x7 x8 x9
  assume p:
    "PARAM_INT e s ''Unable to set scanning_mode to %d'' ''Set scanning_mode to %d''
       uvc_set_scanning_mode scanning_mode (\<lambda>v c. c\<lparr>scanning_mode := v\<rparr>)
       (\<lambda>c. Some (scanning_mode c)) (nc, []) = Inr x1"
    "PARAM_INT e s ''Unable to set auto_exposure to %d'' ''Set auto_exposure to %d''
       uvc_set_ae_mode auto_exposure (\<lambda>v c. c\<lparr>auto_exposure := v\<rparr>)
       (\<lambda>c. shl_one (auto_exposure c)) x1 = Inr x2"
    "PARAM_INT e s ''Unable to set auto_exposure_priority to %d''
       ''Set auto_exposure_priority to %d''
       uvc_set_ae_priority auto_exposure_priority (\<lambda>v c. c\<lparr>auto_exposure_priority := v\<rparr>)
       (\<lambda>c. Some (auto_exposure_priority c)) x2 = Inr x3"
    "PARAM_INT e s ''Unable to set exposure_absolute to %d''
       ''Set exposure_absolute to %d''
       uvc_set_exposure_abs exposure_absolute (\<lambda>v c. c\<lparr>exposure_absolute := v\<rparr>)
       (\<lambda>c. int_of_double (double_mult (exposure_absolute c) (double_of_int 10000))) x3 = Inr x4"
    "PARAM_INT e s ''Unable to set auto_focus to %d'' ''Set auto_focus to %d''
       uvc_set_focus_auto auto_focus (\<lambda>v c. c\<lparr>auto_focus := v\<rparr>)
       (\<lambda>c. Some (if auto_focus c then 1 else 0)) x4 = Inr x5"
    "PARAM_INT e s ''Unable to set focus_absolute to %d'' ''Set focus_absolute to %d''
       uvc_set_focus_abs focus_absolute (\<lambda>v c. c\<lparr>focus_absolute := v\<rparr>)
       (\<lambda>c. Some (focus_absolute c)) x5 = Inr x6"
    "PARAM_INT e s ''Unable to set gain to %d'' ''Set gain to %d''
       uvc_set_gain gain (\<lambda>v c. c\<lparr>gain := v\<rparr>)
       (\<lambda>c. Some (gain c)) x6 = Inr x7"
    "PARAM_INT e s ''Unable to set iris_absolute to %d'' ''Set iris_absolute to %d''
       uvc_set_iris_abs iris_absolute (\<lambda>v c. c\<lparr>iris_absolute := v\<rparr>)
       (\<lambda>c. Some (iris_absolute c)) x7 = Inr x8"
    "PARAM_INT e s ''Unable to set brightness to %d'' ''Set brightness to %d''
       uvc_set_brightness brightness (\<lambda>v c. c\<lparr>brightness := v\<rparr>)
       (\<lambda>c. Some (brightness c)) x8 = Inr x9"
    and q: "set_pantilt e s x9 = Inr (nc1, t)"
  have 1: "fst x1 = nc\<lparr>scanning_mode := scanning_mode (committed_snapshot e (devh' s) (config' s) nc)\<rparr>"
    using PARAM_INT_Inr [OF p(1)]
    by (simp add: committed_snapshot_def rejected_simps)
  have 2: "fst x2 = (fst x1)\<lparr>auto_exposure := auto_exposure (committed_snapshot e (devh' s) (config' s) nc)\<rparr>"
    using PARAM_INT_Inr [OF p(2)]
    by (simp add: committed_snapshot_def rejected_simps 1)
  have 3: "fst x3 = (fst x2)\<lparr>auto_exposure_priority := auto_exposure_priority (committed_snapshot e (devh' s) (config' s) nc)\<rparr>"
    using PARAM_INT_Inr [OF p(3)]
    by (simp add: committed_snapshot_def rejected_simps 1 2)
  have 4: "fst x4 = (fst x3)\<lparr>exposure_absolute := exposure_absolute (committed_snapshot e (devh' s) (config' s) nc)\<rparr>"
    using PARAM_INT_Inr [OF p(4)]
    by (simp add: committed_snapshot_def rejected_simps 1 2 3)
  have 5: "fst x5 = (fst x4)\<lparr>auto_focus := auto_focus (committed_snapshot e (devh' s) (config' s) nc)\<rparr>"
    using PARAM_INT_Inr [OF p(5)]
    by (simp add: committed_snapshot_def rejected_simps 1 2 3 4)
  have 6: "fst x6 = (fst x5)\<lparr>focus_absolute := focus_absolute (committed_snapshot e (devh' s) (config' s) nc)\<rparr>"
    using PARAM_INT_Inr [OF p(6)]
    by (simp add: committed_snapshot_def rejected_simps 1 2 3 4 5)
  have 7: "fst x7 = (fst x6)\<lparr>gain := gain (committed_snapshot e (devh' s) (config' s) nc)\<rparr>"
    using PARAM_INT_Inr [OF p(7)]
    by (simp add: committed_snapshot_def rejected_simps 1 2 3 4 5 6)
  have 8: "fst x8 = (fst x7)\<lparr>iris_absolute := iris_absolute (committed_snapshot e (devh' s) (config' s) nc)\<rparr>"
    using PARAM_INT_Inr [OF p(8)]
    by (simp add: committed_snapshot_def rejected_simps 1 2 3 4 5 6 7)
  have 9: "fst x9 = (fst x8)\<lparr>brightness := brightness (committed_snapshot e (devh' s) (config' s) nc)\<rparr>"
    using PARAM_INT_Inr [OF p(9)]
    by (simp add: committed_snapshot_def rejected_simps 1 2 3 4 5 6 7 8)
  have 10: "nc1 = (fst x9)\<lparr>pan_absolute := pan_absolute (committed_snapshot e (devh' s) (config' s) nc),
      tilt_absolute := tilt_absolute (committed_snapshot e (devh' s) (config' s) nc)\<rparr>"
    using set_pantilt_Inr [OF q]
    by (simp add: committed_snapshot_def pantilt_rejected_def 1 2 3 4 5 6 7 8 9)
  show "nc1 = committed_snapshot e (devh' s) (config' s) nc"
    unfolding 10 9 8 7 6 5 4 3 2 1
    by (simp add: committed_snapshot_def)
qed

lemma set_controls_exposure_only:
  assumes "exposure_absolute (config' s) = double_0_01"
  shows "set_controls e s ((config' s)\<lparr>exposure_absolute := double_0_02\<rparr>) =
           (if uvc_set e uvc_set_exposure_abs (devh' s) 200 = UVC_SUCCESS
            then Inr ((config' s)\<lparr>exposure_absolute := double_0_02\<rparr>,
                      [Call_uvc_set uvc_set_exposure_abs (devh' s) 200,
                       ROS_INFO ''Set exposure_absolute to %d''])
            else Inr (config' s,
                      [Call_uvc_set uvc_set_exposure_abs (devh' s) 200,
                       ROS_WARN ''Unable to set exposure_absolute to %d'']))"
proof -
  have r: "(config' s)\<lparr>exposure_absolute := double_0_01\<rparr> = config' s"
    using assms [symmetric] by simp
  show ?thesis
    using assms
    by (simp add: set_controls_def PARAM_INT_def set_pantilt_def bind_res_def
          double_0_02_times_10000 double_0_01_neq_0_02 r)
qed

lemma ReconfigureCallback_InrE:
  assumes "\<not> creation' s" "ReconfigureCallback e s nc level = Inr (s1, nc1, tr)"
  obtains s3 t0 where
    "config' s3 = config' s" "control_writes t0 = []"
    "state' s3 \<noteq> kRunning \<longrightarrow> s1 = s3 \<and> nc1 = nc \<and> tr = t0"
    "state' s3 = kRunning \<longrightarrow>
       (\<exists>t4. set_controls e s3 nc = Inr (nc1, t4) \<and> s1 = s3\<lparr>config' := nc1\<rparr> \<and> tr = t0 @ t4)"
proof -
  from assms obtain sa ta sb tb where
    a: "(if level AND kReconfigureClose e = kReconfigureClose e \<and> state' s = kRunning
         then CloseCamera s else Inr (s, [])) = Inr (sa, ta)" and
    b: "(if state' sa = kStopped then OpenCamera e sa nc else Inr (sa, [])) = Inr (sb, tb)" and
    c: "(let (s3, t3) =
               (if camera_info_url nc \<noteq> camera_info_url (config' sb)
                then (sb\<lparr>cinfo_manager' :=
                            loadCameraInfo e (cinfo_manager' sb) (camera_info_url nc)\<rparr>,
                      [Call_loadCameraInfo (camera_info_url nc)])
                else (sb, []))
         in if state' s3 = kRunning
            then bind_res (set_controls e s3 nc) (\<lambda>(new_config', t4).
                   Inr (s3\<lparr>config' := new_config'\<rparr>, new_config', ta @ tb @ t3 @ t4))
            else Inr (s3, nc, ta @ tb @ t3)) = Inr (s1, nc1, tr)"
    unfolding ReconfigureCallback_def
    by (auto elim!: bind_res_InrE)
  have a': "config' sa = config' s \<and> control_writes ta = []"
    using a by (auto simp: CloseCamera_def control_writes_simps is_control_write_def
                     split: if_splits)
  have b': "config' sb = config' sa \<and> control_writes tb = []"
    using b by (auto simp: control_writes_simps split: if_splits dest: OpenCamera_Inr)
  define s3 where "s3 = (if camera_info_url nc \<noteq> camera_info_url (config' sb)
                then sb\<lparr>cinfo_manager' :=
                            loadCameraInfo e (cinfo_manager' sb) (camera_info_url nc)\<rparr>
                else sb)"
  define t3 where "t3 = (if camera_info_url nc \<noteq> camera_info_url (config' sb)
                then [Call_loadCameraInfo (camera_info_url nc)] else [])"
  have c': "(if state' s3 = kRunning
            then bind_res (set_controls e s3 nc) (\<lambda>(new_config', t4).
                   Inr (s3\<lparr>config' := new_config'\<rparr>, new_config', ta @ tb @ t3 @ t4))
            else Inr (s3, nc, ta @ tb @ t3)) = Inr (s1, nc1, tr)"
    using c by (auto simp: s3_def t3_def split: if_splits)
  have 1: "config' s3 = config' s"
    using a' b' by (simp add: s3_def)
  have 2: "control_writes (ta @ tb @ t3) = []"
    using a' b' by (simp add: t3_def control_writes_simps is_control_write_def)
  have 3: "state' s3 \<noteq> kRunning \<longrightarrow> s1 = s3 \<and> nc1 = nc \<and> tr = ta @ tb @ t3"
    using c' by auto
  have 4: "state' s3 = kRunning \<longrightarrow>
       (\<exists>t4. set_controls e s3 nc = Inr (nc1, t4) \<and> s1 = s3\<lparr>config' := nc1\<rparr> \<and>
             tr = (ta @ tb @ t3) @ t4)"
    using c' by (auto elim!: bind_res_InrE)
  from that [OF 1 2 3 4] show ?thesis .
qed

lemma ReconfigureCallback_after_close:
  assumes "\<not> creation' s" "state' s = kRunning"
    and "level AND kReconfigureClose e = kReconfigureClose e"
  shows "ReconfigureCallback e s new_config level =
           (case ReconfigureCallback e (s\<lparr>devh' := None, dev' := None, state' := kStopped\<rparr>)
                   new_config level of
              Inl f \<Rightarrow> Inl f
            | Inr (s1, nc1, t) \<Rightarrow>
                Inr (s1, nc1, Call_uvc_close (devh' s) # Call_uvc_unref_device (dev' s) # t))"
  using assms
  by (simp add: ReconfigureCallback_def CloseCamera_def bind_res_def Let_def split_beta
           split: sum.splits)

lemma ReconfigureCallback_exposure_direct:
  assumes "\<not> creation' s" "state' s = kRunning"
    and "exposure_absolute (config' s) = double_0_01"
    and "level AND kReconfigureClose e \<noteq> kReconfigureClose e"
  shows "ReconfigureCallback e s ((config' s)\<lparr>exposure_absolute := double_0_02\<rparr>) level =
           (if uvc_set e uvc_set_exposure_abs (devh' s) 200 = UVC_SUCCESS
            then Inr (s\<lparr>config' := (config' s)\<lparr>exposure_absolute := double_0_02\<rparr>\<rparr>,
                      (config' s)\<lparr>exposure_absolute := double_0_02\<rparr>,
                      [Call_uvc_set uvc_set_exposure_abs (devh' s) 200,
                       ROS_INFO ''Set exposure_absolute to %d''])
            else Inr (s, config' s,
                      [Call_uvc_set uvc_set_exposure_abs (devh' s) 200,
                       ROS_WARN ''Unable to set exposure_absolute to %d'']))"
  using assms set_controls_exposure_only [OF assms(3), of e]
  by (simp add: ReconfigureCallback_def bind_res_def)

text \<open>\<^verbatim>\<open>Start\<close> on the device that accepts every request reaches the streaming driver.\<close>

lemma Start_ex_initial_driver:
  "Start ex_env ex_initial_driver =
     Inr (ex_driver, True,
          [Call_uvc_init,
           ROS_INFO opening_camera_format,
           Call_uvc_find_device (Some 1) 1133 2085 None,
           Call_uvc_open (Some 2),
           Call_uvc_set_status_callback (Some 3),
           Call_uvc_get_stream_ctrl_format_size (Some 3) UVC_FRAME_FORMAT_BGR 2 1 15,
           Call_uvc_start_iso_streaming (Some 3) 0,
           Call_uvc_allocate_frame 6])"
  by (simp add: Start_def ReconfigureCallback_def OpenCamera_def GetVideoMode_def
        set_controls_def PARAM_INT_def set_pantilt_def bind_res_def Let_def
        ex_env_def ex_initial_driver_def ex_driver_def ex_config_def replicate_6
        allocation_size_2x1)

lemma OpenCamera_ex_unplugged:
  "OpenCamera ex_env_unplugged (ex_driver\<lparr>devh' := None, dev' := None, state' := kStopped\<rparr>)
     ex_resized_config =
   Inr (ex_driver\<lparr>devh' := None, dev' := None, state' := kStopped\<rparr>,
        [ROS_INFO opening_camera_format,
         Call_uvc_find_device (Some 1) 1133 2085 None,
         ROS_WARN ''uvc_find_device: %s''])"
  by (simp add: OpenCamera_def Let_def ex_env_unplugged_def ex_env_def ex_driver_def
        ex_resized_config_def ex_config_def)

lemma ReconfigureCallback_ex_unplugged:
  "ReconfigureCallback ex_env_unplugged ex_driver ex_resized_config 3 =
   Inr (ex_driver\<lparr>devh' := None, dev' := None, state' := kStopped\<rparr>, ex_resized_config,
        [Call_uvc_close (Some 3), Call_uvc_unref_device (Some 2),
         ROS_INFO opening_camera_format,
         Call_uvc_find_device (Some 1) 1133 2085 None,
         ROS_WARN ''uvc_find_device: %s''])"
proof -
  have k: "kReconfigureClose ex_env_unplugged = 3" "\<not> creation' ex_driver"
    "state' ex_driver = kRunning" "devh' ex_driver = Some 3" "dev' ex_driver = Some 2"
    "camera_info_url ex_resized_config = camera_info_url (config' ex_driver)"
    by (simp_all add: ex_env_unplugged_def ex_env_def ex_driver_def ex_resized_config_def)
  show ?thesis
    using OpenCamera_ex_unplugged k
    by (simp add: ReconfigureCallback_def CloseCamera_def bind_res_def Let_def)
qed

lemma ReconfigureCallback_ex_rejecting:
  "ReconfigureCallback ex_env_rejecting ex_driver ex_exposure_config 0 =
   Inr (ex_driver, ex_config,
        [Call_uvc_set uvc_set_exposure_abs (Some 3) 200,
         ROS_WARN ''Unable to set exposure_absolute to %d''])"
proof -
  have k: "kReconfigureClose ex_env_rejecting = 3" "\<not> creation' ex_driver"
    "state' ex_driver = kRunning" "devh' ex_driver = Some 3" "config' ex_driver = ex_config"
    "exposure_absolute (config' ex_driver) = double_0_01"
    "uvc_set ex_env_rejecting uvc_set_exposure_abs (Some 3) 200 \<noteq> UVC_SUCCESS"
    "ex_exposure_config = (config' ex_driver)\<lparr>exposure_absolute := double_0_02\<rparr>"
    by (simp_all add: ex_env_rejecting_def ex_env_def ex_driver_def ex_exposure_config_def
          ex_config_def)
  have l: "0 AND kReconfigureClose ex_env_rejecting \<noteq> kReconfigureClose ex_env_rejecting"
    by (simp add: k(1))
  show ?thesis
    unfolding k(8)
    using ReconfigureCallback_exposure_direct [OF k(2,3,6) l] k(4,5,7)
    by simp
qed

lemma ImageCallback_ex_wrapping:
  "ImageCallback ex_env ex_driver_wrapping ex_tiny_frame 7 =
     Inr (ex_driver_wrapping,
          [Call_data_resize 2,
           Call_publish
             \<lparr>header_frame_id = ''camera'', header_stamp = 7, image_height = 1,
              image_width = 1431655766, encoding = ''bgr8'', step = 2, image_data = [1, 2]\<rparr>
             \<lparr>cinfo_frame_id = ''camera'', cinfo_stamp = 7, calibration = 0\<rparr>])"
  by (simp add: ImageCallback_def ex_env_def ex_driver_wrapping_def ex_driver_def
        ex_tiny_frame_def ex_config_def sized_image_def convert_frame_def copy_into_def
        memcpy_def bind_res_def Let_def replicate_2)

section \<open>The claims\<close>

text \<open>
  C10. \<^verbatim>\<open>GetVideoMode\<close> returns a format for every string and never faults: each of the
  eight recognised strings gives its format constant, and every other string gives the
  uncompressed format, with a warning in the log and no error.
\<close>

theorem GetVideoMode_total:
  "GetVideoMode ''uncompressed'' = (UVC_COLOR_FORMAT_UNCOMPRESSED, []) \<and>
   GetVideoMode ''compressed'' = (UVC_COLOR_FORMAT_COMPRESSED, []) \<and>
   GetVideoMode ''yuyv'' = (UVC_COLOR_FORMAT_YUYV, []) \<and>
   GetVideoMode ''uyvy'' = (UVC_COLOR_FORMAT_UYVY, []) \<and>
   GetVideoMode ''rgb'' = (UVC_COLOR_FORMAT_RGB, []) \<and>
   GetVideoMode ''bgr'' = (UVC_COLOR_FORMAT_BGR, []) \<and>
   GetVideoMode ''mjpeg'' = (UVC_COLOR_FORMAT_MJPEG, []) \<and>
   GetVideoMode ''gray8'' = (UVC_COLOR_FORMAT_GRAY8, []) \<and>
   (\<forall>vmode. vmode \<notin> {''uncompressed'', ''compressed'', ''yuyv'', ''uyvy'', ''rgb'', ''bgr'',
                        ''mjpeg'', ''gray8''} \<longrightarrow>
      GetVideoMode vmode =
        (UVC_COLOR_FORMAT_UNCOMPRESSED,
         [ROS_WARN ''Invalid Video Mode: %s, using video mode: uncompressed'']))"
  by (simp add: GetVideoMode_def)

theorem GetVideoMode_total_witness:
  "''h264'' \<notin> {''uncompressed'', ''compressed'', ''yuyv'', ''uyvy'', ''rgb'', ''bgr'',
                ''mjpeg'', ''gray8''} \<and>
   GetVideoMode ''h264'' =
     (UVC_COLOR_FORMAT_UNCOMPRESSED,
      [ROS_WARN ''Invalid Video Mode: %s, using video mode: uncompressed''])"
  using GetVideoMode_total by simp

text \<open>
  C9. \<^verbatim>\<open>Stop\<close> called in the state \<open>kInitial\<close> fails its first assertion and releases
  nothing (a fault carries no event). Called in any other state it closes the device first
  if the state is \<open>kRunning\<close>, then releases the context, and ends in \<open>kInitial\<close> with the
  context pointer null; a second \<^verbatim>\<open>Stop\<close> right after it fails the assertion.
\<close>

theorem Stop_contract:
  "(state' s = kInitial \<longrightarrow> Stop s = Inl (AssertionFailed ''state_ != kInitial'')) \<and>
   (state' s \<noteq> kInitial \<longrightarrow>
      (\<exists>s1. Stop s = Inr (s1, (if state' s = kRunning
                                then [Call_uvc_close (devh' s), Call_uvc_unref_device (dev' s)]
                                else []) @ [Call_uvc_exit (ctx' s)]) \<and>
            state' s1 = kInitial \<and> ctx' s1 = None \<and>
            Stop s1 = Inl (AssertionFailed ''state_ != kInitial'')))"
  by (cases "state' s") (simp_all add: Stop_def bind_res_def CloseCamera_def)

theorem Stop_contract_witness:
  "state' ex_driver \<noteq> kInitial \<and>
   (\<exists>s1. Stop ex_driver =
            Inr (s1, [Call_uvc_close (Some 3), Call_uvc_unref_device (Some 2),
                      Call_uvc_exit (Some 1)]) \<and>
         state' s1 = kInitial \<and> ctx' s1 = None \<and>
         Stop s1 = Inl (AssertionFailed ''state_ != kInitial'')) \<and>
   state' ex_initial_driver = kInitial \<and>
   Stop ex_initial_driver = Inl (AssertionFailed ''state_ != kInitial'')"
  using Stop_contract [of ex_driver] Stop_contract [of ex_initial_driver]
  by (simp add: ex_driver_def ex_initial_driver_def)

text \<open>
  C5. A control-value-changed event with the attribute \<^verbatim>\<open>VALUE_CHANGE\<close>, the camera
  control class and the absolute-exposure selector, with the payload bytes
  \<^verbatim>\<open>[0x10, 0x27, 0x00, 0x00]\<close>, sets \<open>exposure_absolute\<close> to 1.0 (the little-endian
  32-bit value 10000 times \<^verbatim>\<open>0.0001\<close>, in double arithmetic) and sets the dirty flag. The
  resulting driver differs from the given one in these two members only.
\<close>

theorem AutoControlsCallback_exposure:
  "AutoControlsCallback e s UVC_STATUS_CLASS_CONTROL_CAMERA ev
     (UVC_CT_EXPOSURE_TIME_ABSOLUTE_CONTROL e) UVC_STATUS_ATTRIBUTE_VALUE_CHANGE
     [0x10, 0x27, 0x00, 0x00] data_len =
   Inr (s\<lparr>config' := (config' s)\<lparr>exposure_absolute := 1\<rparr>, config_changed' := True\<rparr>,
        [ROS_DEBUG controls_callback_format])"
  by (simp add: AutoControlsCallback_def double_10000_times_0_0001)

text \<open>
  C1. Let the width \<open>w\<close> and the height \<open>h\<close> of the current snapshot be positive with
  \<open>w * 3 * h \<le> 1920 * 1080 * 3\<close>. Then every image that the frame callback publishes has a
  data buffer of exactly \<open>w * h * 3\<close> bytes and a step of exactly \<open>w * 3\<close>. The callback
  does publish, exactly one image, when the state is \<open>kRunning\<close>, the scratch frame is
  allocated and the frame is a BGR, RGB or UYVY frame whose payload fits the buffer (a
  frame that goes through a libuvc converter is published when the converter succeeds).
\<close>

theorem ImageCallback_image_size:
  assumes "0 < width (config' s)" "0 < height (config' s)"
    and "width (config' s) * 3 * height (config' s) \<le> 1920 * 1080 * 3"
  shows "(\<forall>s1 tr i c. ImageCallback e s frame ts = Inr (s1, tr) \<and> (i, c) \<in> set (published tr) \<longrightarrow>
            int (length (image_data i)) = width (config' s) * height (config' s) * 3 \<and>
            uint (step i) = width (config' s) * 3) \<and>
         (\<forall>payload. state' s = kRunning \<and> rgb_frame' s \<noteq> None \<and> data frame = Some payload \<and>
            frame_format frame \<in> {UVC_FRAME_FORMAT_BGR, UVC_FRAME_FORMAT_RGB,
                                    UVC_FRAME_FORMAT_UYVY} \<and>
            data_bytes frame \<le> length payload \<and>
            int (data_bytes frame) \<le> width (config' s) * height (config' s) * 3 \<longrightarrow>
            (\<exists>s1 tr i c. ImageCallback e s frame ts = Inr (s1, tr) \<and> published tr = [(i, c)] \<and>
               resizes tr = [nat (width (config' s) * height (config' s) * 3)]))"
proof -
  define k where "k = width (config' s) * 3 * height (config' s)"
  define k3 where "k3 = width (config' s) * 3"
  have k: "k \<le> 1920 * 1080 * 3"
    using assms(3) unfolding k_def .
  have "k3 * 1 \<le> k3 * height (config' s)"
    using assms(1,2) by (intro mult_left_mono) (simp_all add: k3_def)
  then have k3: "k3 \<le> k"
    by (simp add: k3_def k_def)
  have "k < 2 ^ 32" "k3 < 2 ^ 32"
    using k k3 by simp_all
  then have lt: "width (config' s) * 3 * height (config' s) < 2 ^ 32"
    "width (config' s) * 3 < 2 ^ 32"
    unfolding k_def k3_def .
  have rb: "uint (requested_bytes (config' s)) = k"
    unfolding k_def using assms(1,2) lt(1) by (intro requested_bytes_exact) simp_all
  have st: "uint (step (sized_image (config' s))) = k3"
    unfolding k3_def using assms(1) lt(2) by (intro step_exact) simp_all
  have un: "unat (requested_bytes (config' s)) = nat k"
    using rb by (simp add: unat_eq_nat_uint)
  have le: "\<not> 1920 * 1080 * 3 < requested_bytes (config' s)"
    using rb k by (simp add: word_less_def)
  have kk: "width (config' s) * height (config' s) * 3 = k"
    by (simp add: k_def)
  have k0: "0 \<le> k"
    using assms(1,2) by (simp add: k_def)
  have part1: "int (length (image_data i)) = k \<and> uint (step i) = k3"
    if "ImageCallback e s frame ts = Inr (s1, tr)" "(i, c) \<in> set (published tr)" for s1 tr i c
    using ImageCallback_published [OF that] un st k0 by simp
  have part2: "\<exists>s1 tr i c. ImageCallback e s frame ts = Inr (s1, tr) \<and> published tr = [(i, c)] \<and>
               resizes tr = [nat k]"
    if "state' s = kRunning" "rgb_frame' s \<noteq> None" "data frame = Some payload"
       "frame_format frame \<in> {UVC_FRAME_FORMAT_BGR, UVC_FRAME_FORMAT_RGB, UVC_FRAME_FORMAT_UYVY}"
       "data_bytes frame \<le> length payload" "int (data_bytes frame) \<le> k" for payload
  proof -
    have "data_bytes frame \<le> unat (requested_bytes (config' s))"
      using that(6) un by simp
    with that(1-5) le assms(1,2) un show ?thesis
      by (auto simp: ImageCallback_def Let_def bind_res_def convert_frame_def copy_into_def
            memcpy_def published_simps resizes_simps requested_bytes_def [symmetric])
  qed
  show ?thesis
    unfolding kk using part1 part2 unfolding k3_def by blast
qed

theorem ImageCallback_image_size_witness:
  "0 < width (config' ex_driver) \<and> 0 < height (config' ex_driver) \<and>
   width (config' ex_driver) * 3 * height (config' ex_driver) \<le> 1920 * 1080 * 3 \<and>
   (\<exists>s1 tr i c. ImageCallback ex_env ex_driver ex_frame 7 = Inr (s1, tr) \<and>
      (i, c) \<in> set (published tr) \<and>
      int (length (image_data i)) = width (config' ex_driver) * height (config' ex_driver) * 3 \<and>
      uint (step i) = width (config' ex_driver) * 3) \<and>
   state' ex_driver = kRunning \<and> rgb_frame' ex_driver \<noteq> None \<and>
   data ex_frame = Some [1, 2, 3, 4, 5, 6] \<and>
   frame_format ex_frame \<in> {UVC_FRAME_FORMAT_BGR, UVC_FRAME_FORMAT_RGB, UVC_FRAME_FORMAT_UYVY} \<and>
   data_bytes ex_frame \<le> length [1 :: byte, 2, 3, 4, 5, 6] \<and>
   int (data_bytes ex_frame) \<le> width (config' ex_driver) * height (config' ex_driver) * 3 \<and>
   (\<exists>s1 tr i c. ImageCallback ex_env ex_driver ex_frame 7 = Inr (s1, tr) \<and>
      published tr = [(i, c)] \<and>
      resizes tr = [nat (width (config' ex_driver) * height (config' ex_driver) * 3)])"
proof -
  have h: "0 < width (config' ex_driver)" "0 < height (config' ex_driver)"
    "width (config' ex_driver) * 3 * height (config' ex_driver) \<le> 1920 * 1080 * 3"
    by (simp_all add: ex_driver_def ex_config_def)
  let ?i = "\<lparr>header_frame_id = ''camera'', header_stamp = 7, image_height = 1, image_width = 2,
              encoding = ''bgr8'', step = 6, image_data = [1, 2, 3, 4, 5, 6]\<rparr>"
  let ?c = "\<lparr>cinfo_frame_id = ''camera'', cinfo_stamp = 7, calibration = 0\<rparr>"
  have p: "(?i, ?c) \<in> set (published [Call_data_resize 6, Call_publish ?i ?c])"
    by (simp add: published_simps)
  have g: "state' ex_driver = kRunning" "rgb_frame' ex_driver \<noteq> None"
    "data ex_frame = Some [1, 2, 3, 4, 5, 6]"
    "frame_format ex_frame \<in> {UVC_FRAME_FORMAT_BGR, UVC_FRAME_FORMAT_RGB, UVC_FRAME_FORMAT_UYVY}"
    "data_bytes ex_frame \<le> length [1 :: byte, 2, 3, 4, 5, 6]"
    "int (data_bytes ex_frame) \<le> width (config' ex_driver) * height (config' ex_driver) * 3"
    by (simp_all add: ex_driver_def ex_config_def ex_frame_def)
  note t = ImageCallback_image_size [OF h, where e = ex_env and frame = ex_frame and ts = 7]
  have 1: "int (length (image_data ?i)) =
          width (config' ex_driver) * height (config' ex_driver) * 3 \<and>
        uint (step ?i) = width (config' ex_driver) * 3"
    using t ImageCallback_ex_frame p by blast
  have 2: "\<exists>s1 tr i c. ImageCallback ex_env ex_driver ex_frame 7 = Inr (s1, tr) \<and>
      published tr = [(i, c)] \<and>
      resizes tr = [nat (width (config' ex_driver) * height (config' ex_driver) * 3)]"
    using t g by blast
  from h g 1 2 ImageCallback_ex_frame p show ?thesis
    by blast
qed

text \<open>
  C6, as amended. For a BGR frame that the callback publishes, the label is \<^verbatim>\<open>bgr8\<close> and
  the published buffer, of the size computed from the snapshot, starts with the
  byte-for-byte copy of the frame's payload and is zero after it. It is byte-identical to
  the payload when the payload has exactly the computed size.
\<close>

theorem ImageCallback_BGR_copy:
  assumes "frame_format frame = UVC_FRAME_FORMAT_BGR"
    and "ImageCallback e s frame ts = Inr (s1, tr)"
    and "(i, c) \<in> set (published tr)"
  shows "encoding i = ''bgr8'' \<and>
         data_bytes frame \<le> unat (requested_bytes (config' s)) \<and>
         image_data i = frame_payload frame @
           replicate (unat (requested_bytes (config' s)) - data_bytes frame) 0 \<and>
         (data_bytes frame = unat (requested_bytes (config' s)) \<longrightarrow>
            image_data i = frame_payload frame)"
  using assms(2,3)
proof (elim ImageCallback_publishedE)
  fix payload rgb rgb1 img1 t
  assume d: "data frame = Some payload"
    and c: "convert_frame e frame payload rgb
       ((sized_image (config' s))\<lparr>image_data :=
          replicate (unat (requested_bytes (config' s))) 0\<rparr>) = Inr (rgb1, Some img1, t)"
    and i: "i = img1\<lparr>header_frame_id := frame_id (config' s), header_stamp := ts\<rparr>"
  from convert_frame_BGR [OF c assms(1)] d i show ?thesis
    by (simp add: frame_payload_def)
qed

theorem ImageCallback_BGR_copy_witness:
  "frame_format ex_frame = UVC_FRAME_FORMAT_BGR \<and>
   ImageCallback ex_env ex_driver ex_frame 7 =
     Inr (ex_driver,
          [Call_data_resize 6,
           Call_publish
             \<lparr>header_frame_id = ''camera'', header_stamp = 7, image_height = 1, image_width = 2,
              encoding = ''bgr8'', step = 6, image_data = [1, 2, 3, 4, 5, 6]\<rparr>
             \<lparr>cinfo_frame_id = ''camera'', cinfo_stamp = 7, calibration = 0\<rparr>]) \<and>
   data_bytes ex_frame = unat (requested_bytes (config' ex_driver)) \<and>
   frame_payload ex_frame = [1, 2, 3, 4, 5, 6]"
proof -
  let ?i = "\<lparr>header_frame_id = ''camera'', header_stamp = 7, image_height = 1, image_width = 2,
              encoding = ''bgr8'', step = 6, image_data = [1, 2, 3, 4, 5, 6]\<rparr>"
  let ?c = "\<lparr>cinfo_frame_id = ''camera'', cinfo_stamp = 7, calibration = 0\<rparr>"
  have f: "frame_format ex_frame = UVC_FRAME_FORMAT_BGR"
    by (simp add: ex_frame_def)
  have p: "(?i, ?c) \<in> set (published [Call_data_resize 6, Call_publish ?i ?c])"
    by (simp add: published_simps)
  have n: "data_bytes ex_frame = unat (requested_bytes (config' ex_driver))"
    by (simp add: ex_frame_def ex_driver_def ex_config_def requested_bytes_def sized_image_def)
  from ImageCallback_BGR_copy [OF f ImageCallback_ex_frame p] n
  have "frame_payload ex_frame = [1, 2, 3, 4, 5, 6]"
    by simp
  with f n ImageCallback_ex_frame show ?thesis
    by simp
qed

text \<open>
  C6, as stated, fails for a BGR frame that is shorter than the buffer computed from the
  snapshot: a frame of three bytes under a snapshot of two by one pixels is published as
  six bytes, the payload and three zero bytes.
\<close>

theorem BGR_copy_counterexample:
  "frame_format ex_short_frame = UVC_FRAME_FORMAT_BGR \<and>
   frame_payload ex_short_frame = [1, 2, 3] \<and>
   ImageCallback ex_env ex_driver ex_short_frame 7 =
     Inr (ex_driver,
          [Call_data_resize 6,
           Call_publish
             \<lparr>header_frame_id = ''camera'', header_stamp = 7, image_height = 1, image_width = 2,
              encoding = ''bgr8'', step = 6, image_data = [1, 2, 3, 0, 0, 0]\<rparr>
             \<lparr>cinfo_frame_id = ''camera'', cinfo_stamp = 7, calibration = 0\<rparr>]) \<and>
   [1, 2, 3, 0, 0, 0] \<noteq> frame_payload ex_short_frame"
  using ImageCallback_ex_short_frame by (simp add: ex_short_frame_def frame_payload_def)


text \<open>
  C7. The claim is that the callback drops every frame for which \<open>width * 3 * height\<close> of
  the current snapshot exceeds \<open>1920 * 1080 * 3\<close>, resizing no buffer and publishing nothing.
  The guard compares \<^verbatim>\<open>image->step * image->height\<close>, which is computed in 32-bit unsigned
  arithmetic, so it misses the snapshots whose product wraps: with the width 1431655766 and
  the height 1 the product is \<open>2 ^ 32 + 2\<close>, the computed size is 2, and the callback resizes
  the buffer to two bytes and publishes an image of width 1431655766 with step 2.
\<close>

theorem ImageCallback_oversized_wraps:
  "1920 * 1080 * 3 < width (config' ex_driver_wrapping) * 3 * height (config' ex_driver_wrapping) \<and>
   state' ex_driver_wrapping = kRunning \<and>
   ImageCallback ex_env ex_driver_wrapping ex_tiny_frame 7 =
     Inr (ex_driver_wrapping,
          [Call_data_resize 2,
           Call_publish
             \<lparr>header_frame_id = ''camera'', header_stamp = 7, image_height = 1,
              image_width = 1431655766, encoding = ''bgr8'', step = 2, image_data = [1, 2]\<rparr>
             \<lparr>cinfo_frame_id = ''camera'', cinfo_stamp = 7, calibration = 0\<rparr>])"
  using ImageCallback_ex_wrapping
  by (simp add: ex_driver_wrapping_def ex_driver_def)

text \<open>
  What the guard does achieve: when the size that the callback computes,
  \<^verbatim>\<open>image->step * image->height\<close> in 32-bit unsigned arithmetic, exceeds
  \<open>1920 * 1080 * 3\<close>, the callback returns after the warning, leaves the driver as it was,
  resizes no buffer and publishes nothing (under its precondition; it faults on a failed
  assertion otherwise). The computed size is \<open>width * 3 * height\<close> itself whenever that
  product is below \<open>2 ^ 32\<close> and neither factor is negative.
\<close>

theorem ImageCallback_oversized:
  assumes "1920 * 1080 * 3 < uint (requested_bytes (config' s)) \<or>
           (0 \<le> width (config' s) \<and> 0 \<le> height (config' s) \<and>
            width (config' s) * 3 * height (config' s) < 2 ^ 32 \<and>
            1920 * 1080 * 3 < width (config' s) * 3 * height (config' s))"
  shows "ImageCallback e s frame ts =
           (if data frame = None then Inr (s, [ROS_WARN ''Got NULL''])
            else if state' s \<noteq> kRunning then Inl (AssertionFailed ''state_ == kRunning'')
            else if rgb_frame' s = None then Inl (AssertionFailed ''rgb_frame_'')
            else Inr (s, [ROS_WARN_ONCE
                   ''resize to: %d cannot be done memory requested suspiciously large''])) \<and>
         (\<forall>s1 tr. ImageCallback e s frame ts = Inr (s1, tr) \<longrightarrow>
            s1 = s \<and> published tr = [] \<and> resizes tr = [])"
proof -
  have big: "1920 * 1080 * 3 < uint (requested_bytes (config' s))"
    using assms requested_bytes_exact [of "config' s"] by auto
  then have gt: "1920 * 1080 * 3 < requested_bytes (config' s)"
    by (simp add: word_less_def)
  have nz: "width (config' s) \<noteq> 0" "height (config' s) \<noteq> 0"
    using big requested_bytes_zero [of "config' s"] by auto
  have eq: "ImageCallback e s frame ts =
           (if data frame = None then Inr (s, [ROS_WARN ''Got NULL''])
            else if state' s \<noteq> kRunning then Inl (AssertionFailed ''state_ == kRunning'')
            else if rgb_frame' s = None then Inl (AssertionFailed ''rgb_frame_'')
            else Inr (s, [ROS_WARN_ONCE
                   ''resize to: %d cannot be done memory requested suspiciously large'']))"
    using gt nz
    by (auto simp: ImageCallback_def Let_def requested_bytes_def [symmetric]
             split: option.splits)
  show ?thesis
    unfolding eq by (auto simp: published_simps resizes_simps)
qed


theorem ImageCallback_oversized_witness:
  "1920 * 1080 * 3 < uint (requested_bytes (config' ex_driver_oversized)) \<and>
   ImageCallback ex_env ex_driver_oversized ex_frame 7 =
     Inr (ex_driver_oversized,
          [ROS_WARN_ONCE ''resize to: %d cannot be done memory requested suspiciously large''])"
proof -
  have h: "1920 * 1080 * 3 < uint (requested_bytes (config' ex_driver_oversized))"
    by (simp add: ex_driver_oversized_def ex_config_def requested_bytes_def sized_image_def)
  then have "1920 * 1080 * 3 < uint (requested_bytes (config' ex_driver_oversized)) \<or>
           (0 \<le> width (config' ex_driver_oversized) \<and> 0 \<le> height (config' ex_driver_oversized) \<and>
            width (config' ex_driver_oversized) * 3 * height (config' ex_driver_oversized) < 2 ^ 32 \<and>
            1920 * 1080 * 3 <
              width (config' ex_driver_oversized) * 3 * height (config' ex_driver_oversized))"
    by (rule disjI1)
  from ImageCallback_oversized [OF this, where e = ex_env and frame = ex_frame and ts = 7] h
  show ?thesis
    by (simp add: ex_driver_oversized_def ex_driver_def ex_frame_def)
qed

text \<open>
  Whatever the snapshot holds, also a width and a height whose product wraps in 32 bits,
  the callback never resizes the output buffer to more than \<open>1920 * 1080 * 3\<close> bytes.
\<close>

theorem ImageCallback_resize_bounded:
  assumes "ImageCallback e s frame ts = Inr (s1, tr)" "n \<in> set (resizes tr)"
  shows "n \<le> 1920 * 1080 * 3"
proof -
  from ImageCallback_resizes [OF assms]
  have n: "n = unat (requested_bytes (config' s))"
    and le: "\<not> 1920 * 1080 * 3 < requested_bytes (config' s)"
    by simp_all
  from le have "\<not> unat (1920 * 1080 * 3 :: uint32) < unat (requested_bytes (config' s))"
    unfolding word_less_nat_alt .
  with n show ?thesis
    by simp
qed

theorem ImageCallback_resize_bounded_witness:
  "ImageCallback ex_env ex_driver ex_frame 7 =
     Inr (ex_driver,
          [Call_data_resize 6,
           Call_publish
             \<lparr>header_frame_id = ''camera'', header_stamp = 7, image_height = 1, image_width = 2,
              encoding = ''bgr8'', step = 6, image_data = [1, 2, 3, 4, 5, 6]\<rparr>
             \<lparr>cinfo_frame_id = ''camera'', cinfo_stamp = 7, calibration = 0\<rparr>]) \<and>
   6 \<in> set (resizes [Call_data_resize 6,
           Call_publish
             \<lparr>header_frame_id = ''camera'', header_stamp = 7, image_height = 1, image_width = 2,
              encoding = ''bgr8'', step = 6, image_data = [1, 2, 3, 4, 5, 6]\<rparr>
             \<lparr>cinfo_frame_id = ''camera'', cinfo_stamp = 7, calibration = 0\<rparr>]) \<and>
   (6 :: nat) \<le> 1920 * 1080 * 3"
proof -
  have m: "6 \<in> set (resizes [Call_data_resize 6,
           Call_publish
             \<lparr>header_frame_id = ''camera'', header_stamp = 7, image_height = 1, image_width = 2,
              encoding = ''bgr8'', step = 6, image_data = [1, 2, 3, 4, 5, 6]\<rparr>
             \<lparr>cinfo_frame_id = ''camera'', cinfo_stamp = 7, calibration = 0\<rparr>])"
    by (simp add: resizes_simps)
  from ImageCallback_resize_bounded [OF ImageCallback_ex_frame m] ImageCallback_ex_frame m
  show ?thesis
    by blast
qed

text \<open>
  C8. When the width or the height of the current snapshot is zero, the callback returns
  after the throttled warning: it leaves the whole driver as it was and publishes nothing
  (under its precondition; it faults on a failed assertion otherwise).
\<close>

theorem ImageCallback_zero_size:
  assumes "width (config' s) = 0 \<or> height (config' s) = 0"
  shows "ImageCallback e s frame ts =
           (if data frame = None then Inr (s, [ROS_WARN ''Got NULL''])
            else if state' s \<noteq> kRunning then Inl (AssertionFailed ''state_ == kRunning'')
            else if rgb_frame' s = None then Inl (AssertionFailed ''rgb_frame_'')
            else Inr (s, [ROS_WARN_THROTTLE
                   ''width or height config not set properly, skipping images''])) \<and>
         (\<forall>s1 tr. ImageCallback e s frame ts = Inr (s1, tr) \<longrightarrow>
            s1 = s \<and> published tr = [] \<and> resizes tr = [])"
proof -
  have eq: "ImageCallback e s frame ts =
           (if data frame = None then Inr (s, [ROS_WARN ''Got NULL''])
            else if state' s \<noteq> kRunning then Inl (AssertionFailed ''state_ == kRunning'')
            else if rgb_frame' s = None then Inl (AssertionFailed ''rgb_frame_'')
            else Inr (s, [ROS_WARN_THROTTLE
                   ''width or height config not set properly, skipping images'']))"
    using assms
    by (auto simp: ImageCallback_def Let_def split: option.splits)
  show ?thesis
    unfolding eq by (auto simp: published_simps resizes_simps)
qed

theorem ImageCallback_zero_size_witness:
  "(width (config' ex_driver_unsized) = 0 \<or> height (config' ex_driver_unsized) = 0) \<and>
   ImageCallback ex_env ex_driver_unsized ex_frame 7 =
     Inr (ex_driver_unsized,
          [ROS_WARN_THROTTLE ''width or height config not set properly, skipping images''])"
proof -
  have h: "width (config' ex_driver_unsized) = 0 \<or> height (config' ex_driver_unsized) = 0"
    by (simp add: ex_driver_unsized_def)
  from ImageCallback_zero_size [OF h, where e = ex_env and frame = ex_frame and ts = 7] h
  show ?thesis
    by (simp add: ex_driver_unsized_def ex_driver_def ex_frame_def)
qed

text \<open>
  C2, as amended. When \<^verbatim>\<open>ReconfigureCallback\<close> returns in the state \<open>kRunning\<close>, the stored
  snapshot is the new configuration with every control field that the device rejected
  reverted to its previous value (the committed snapshot in the words of the spec). When it
  returns in another state, as after a failed reopen, the stored snapshot is the one from
  before the call. Before \<^verbatim>\<open>Start\<close> (while \<^verbatim>\<open>creation_\<close> is set) the callback only stores the
  new configuration.
\<close>

theorem ReconfigureCallback_baseline:
  assumes "ReconfigureCallback e s new_config level = Inr (s1, new_config1, tr)"
  shows "config' s1 =
           (if creation' s then new_config
            else if state' s1 = kRunning
                 then committed_snapshot e (devh' s1) (config' s) new_config
                 else config' s)"
proof (cases "creation' s")
  case True
  with assms show ?thesis
    by (auto simp: ReconfigureCallback_def)
next
  case False
  from False assms show ?thesis
  proof (elim ReconfigureCallback_InrE)
    fix s3 t0
    assume h: "config' s3 = config' s"
      "state' s3 \<noteq> kRunning \<longrightarrow> s1 = s3 \<and> new_config1 = new_config \<and> tr = t0"
      "state' s3 = kRunning \<longrightarrow>
         (\<exists>t4. set_controls e s3 new_config = Inr (new_config1, t4) \<and>
               s1 = s3\<lparr>config' := new_config1\<rparr> \<and> tr = t0 @ t4)"
    show ?thesis
    proof (cases "state' s3 = kRunning")
      case True
      with h(3) obtain t4 where
        sc: "set_controls e s3 new_config = Inr (new_config1, t4)" and
        s1: "s1 = s3\<lparr>config' := new_config1\<rparr>"
        by blast
      from set_controls_committed [OF sc] s1 h(1) True False show ?thesis
        by simp
    next
      case no: False
      with h(1,2) False show ?thesis
        by auto
    qed
  qed
qed

theorem ReconfigureCallback_baseline_witness:
  "ReconfigureCallback ex_env_rejecting ex_driver ex_exposure_config 0 =
     Inr (ex_driver, ex_config,
          [Call_uvc_set uvc_set_exposure_abs (Some 3) 200,
           ROS_WARN ''Unable to set exposure_absolute to %d'']) \<and>
   config' ex_driver =
     committed_snapshot ex_env_rejecting (devh' ex_driver) (config' ex_driver)
       ex_exposure_config \<and>
   exposure_absolute (config' ex_driver) = double_0_01 \<and>
   exposure_absolute ex_exposure_config = double_0_02"
  using ReconfigureCallback_baseline [OF ReconfigureCallback_ex_rejecting]
    ReconfigureCallback_ex_rejecting
  by (simp add: ex_driver_def ex_config_def ex_exposure_config_def)

text \<open>
  C2, as stated, fails after a failed reopen: the driver is streaming, the change mask asks
  for a renegotiation of the size, and the device is gone. The callback closes the device,
  does not find it again, writes no control, and returns in the state \<open>kStopped\<close> with the
  old snapshot still stored, although no field of the new one was rejected.
\<close>

theorem ReconfigureCallback_baseline_counterexample:
  "ReconfigureCallback ex_env_unplugged ex_driver ex_resized_config 3 =
     Inr (ex_driver\<lparr>devh' := None, dev' := None, state' := kStopped\<rparr>, ex_resized_config,
          [Call_uvc_close (Some 3), Call_uvc_unref_device (Some 2),
           ROS_INFO opening_camera_format,
           Call_uvc_find_device (Some 1) 1133 2085 None,
           ROS_WARN ''uvc_find_device: %s'']) \<and>
   config' (ex_driver\<lparr>devh' := None, dev' := None, state' := kStopped\<rparr>) = ex_config \<and>
   committed_snapshot ex_env_unplugged None ex_config ex_resized_config = ex_resized_config \<and>
   ex_config \<noteq> ex_resized_config"
proof -
  have "committed_snapshot ex_env_unplugged None ex_config ex_resized_config = ex_resized_config"
    by (simp add: committed_snapshot_def ex_resized_config_def ex_config_def)
  moreover have "ex_config \<noteq> ex_resized_config"
    by (simp add: ex_resized_config_def ex_config_def)
  moreover have "config' (ex_driver\<lparr>devh' := None, dev' := None, state' := kStopped\<rparr>) = ex_config"
    by (simp add: ex_driver_def)
  ultimately show ?thesis
    using ReconfigureCallback_ex_unplugged by simp
qed

text \<open>
  C3. When \<^verbatim>\<open>ReconfigureCallback\<close> is called in the state \<open>kRunning\<close> with a change mask that
  has the bits of \<^verbatim>\<open>kReconfigureClose\<close>, it first closes the camera, which gives the state
  \<open>kStopped\<close> and the events \<^verbatim>\<open>uvc_close\<close> and \<^verbatim>\<open>uvc_unref_device\<close>, and then runs as the
  callback does from that stopped driver: the two events come before every other event,
  so before every control write. When the reopen then fails (\<^verbatim>\<open>OpenCamera\<close> returns without
  reaching \<open>kRunning\<close>), the callback returns in the state \<open>kStopped\<close> and its events hold
  no control write.
\<close>

theorem ReconfigureCallback_close_first:
  assumes "\<not> creation' s" "state' s = kRunning"
    and "level AND kReconfigureClose e = kReconfigureClose e"
  shows "CloseCamera s = Inr (s\<lparr>devh' := None, dev' := None, state' := kStopped\<rparr>,
                              [Call_uvc_close (devh' s), Call_uvc_unref_device (dev' s)]) \<and>
         ReconfigureCallback e s new_config level =
           (case ReconfigureCallback e (s\<lparr>devh' := None, dev' := None, state' := kStopped\<rparr>)
                   new_config level of
              Inl f \<Rightarrow> Inl f
            | Inr (s1, nc1, t) \<Rightarrow>
                Inr (s1, nc1, Call_uvc_close (devh' s) # Call_uvc_unref_device (dev' s) # t)) \<and>
         (\<forall>s2 t2. OpenCamera e (s\<lparr>devh' := None, dev' := None, state' := kStopped\<rparr>) new_config
                    = Inr (s2, t2) \<and> state' s2 \<noteq> kRunning \<longrightarrow>
            (\<exists>s1 tr. ReconfigureCallback e s new_config level =
                 Inr (s1, new_config,
                      Call_uvc_close (devh' s) # Call_uvc_unref_device (dev' s) # tr) \<and>
               state' s1 = kStopped \<and> config' s1 = config' s \<and> control_writes tr = []))"
proof -
  let ?s0 = "s\<lparr>devh' := None, dev' := None, state' := kStopped\<rparr>"
  have cl: "CloseCamera s = Inr (?s0, [Call_uvc_close (devh' s), Call_uvc_unref_device (dev' s)])"
    using assms(2) by (rule CloseCamera_running)
  have fail: "\<exists>s1 tr. ReconfigureCallback e s new_config level =
                 Inr (s1, new_config,
                      Call_uvc_close (devh' s) # Call_uvc_unref_device (dev' s) # tr) \<and>
               state' s1 = kStopped \<and> config' s1 = config' s \<and> control_writes tr = []"
    if o: "OpenCamera e ?s0 new_config = Inr (s2, t2)" and n: "state' s2 \<noteq> kRunning" for s2 t2
  proof -
    from OpenCamera_Inr [OF o] n have f: "state' s2 = kStopped" "control_writes t2 = []"
      "config' s2 = config' s"
      by auto
    show ?thesis
      using assms o f
      by (simp add: ReconfigureCallback_def CloseCamera_def bind_res_def Let_def
            control_writes_simps is_control_write_def)
  qed
  show ?thesis
    using cl ReconfigureCallback_after_close [OF assms] fail by blast
qed

theorem ReconfigureCallback_close_first_witness:
  "\<not> creation' ex_driver \<and> state' ex_driver = kRunning \<and>
   3 AND kReconfigureClose ex_env_unplugged = kReconfigureClose ex_env_unplugged \<and>
   OpenCamera ex_env_unplugged (ex_driver\<lparr>devh' := None, dev' := None, state' := kStopped\<rparr>)
     ex_resized_config =
     Inr (ex_driver\<lparr>devh' := None, dev' := None, state' := kStopped\<rparr>,
        [ROS_INFO opening_camera_format,
         Call_uvc_find_device (Some 1) 1133 2085 None,
         ROS_WARN ''uvc_find_device: %s'']) \<and>
   state' (ex_driver\<lparr>devh' := None, dev' := None, state' := kStopped\<rparr>) \<noteq> kRunning \<and>
   (\<exists>s1 tr. ReconfigureCallback ex_env_unplugged ex_driver ex_resized_config 3 =
              Inr (s1, ex_resized_config,
                   Call_uvc_close (devh' ex_driver) # Call_uvc_unref_device (dev' ex_driver) # tr) \<and>
            state' s1 = kStopped \<and> config' s1 = config' ex_driver \<and> control_writes tr = [])"
proof -
  have h: "\<not> creation' ex_driver" "state' ex_driver = kRunning"
    "3 AND kReconfigureClose ex_env_unplugged = kReconfigureClose ex_env_unplugged"
    by (simp_all add: ex_driver_def ex_env_unplugged_def ex_env_def)
  have n: "state' (ex_driver\<lparr>devh' := None, dev' := None, state' := kStopped\<rparr>) \<noteq> kRunning"
    by simp
  from ReconfigureCallback_close_first [OF h, of ex_resized_config] OpenCamera_ex_unplugged n
  have "\<exists>s1 tr. ReconfigureCallback ex_env_unplugged ex_driver ex_resized_config 3 =
              Inr (s1, ex_resized_config,
                   Call_uvc_close (devh' ex_driver) # Call_uvc_unref_device (dev' ex_driver) # tr) \<and>
            state' s1 = kStopped \<and> config' s1 = config' ex_driver \<and> control_writes tr = []"
    by blast
  with h n OpenCamera_ex_unplugged show ?thesis
    by blast
qed

text \<open>
  C4. The driver is streaming and the new configuration differs from the stored snapshot
  only in \<open>exposure_absolute\<close>, changed from \<^verbatim>\<open>0.01\<close> to \<^verbatim>\<open>0.02\<close>. When the change mask
  asks for no renegotiation, the callback returns and its only events are the control
  write \<^verbatim>\<open>uvc_set_exposure_abs(devh_, 200)\<close> and one log line; the stored snapshot then
  holds \<^verbatim>\<open>0.02\<close> if the device accepted the write and is the previous snapshot, with
  \<^verbatim>\<open>0.01\<close>, if it rejected it. For every change mask, a call that returns in the state
  \<open>kRunning\<close> has issued exactly that one control write and stored the exposure in this way.
\<close>

theorem ReconfigureCallback_exposure_only:
  assumes "\<not> creation' s" "state' s = kRunning"
    and "exposure_absolute (config' s) = double_0_01"
    and "new_config = (config' s)\<lparr>exposure_absolute := double_0_02\<rparr>"
  shows "(level AND kReconfigureClose e \<noteq> kReconfigureClose e \<longrightarrow>
            ReconfigureCallback e s new_config level =
              (if uvc_set e uvc_set_exposure_abs (devh' s) 200 = UVC_SUCCESS
               then Inr (s\<lparr>config' := new_config\<rparr>, new_config,
                         [Call_uvc_set uvc_set_exposure_abs (devh' s) 200,
                          ROS_INFO ''Set exposure_absolute to %d''])
               else Inr (s, config' s,
                         [Call_uvc_set uvc_set_exposure_abs (devh' s) 200,
                          ROS_WARN ''Unable to set exposure_absolute to %d'']))) \<and>
         (\<forall>s1 nc1 tr. ReconfigureCallback e s new_config level = Inr (s1, nc1, tr) \<and>
              state' s1 = kRunning \<longrightarrow>
            control_writes tr = [Call_uvc_set uvc_set_exposure_abs (devh' s1) 200] \<and>
            exposure_absolute (config' s1) =
              (if uvc_set e uvc_set_exposure_abs (devh' s1) 200 = UVC_SUCCESS
               then double_0_02 else double_0_01))"
proof -
  have direct: "ReconfigureCallback e s new_config level =
              (if uvc_set e uvc_set_exposure_abs (devh' s) 200 = UVC_SUCCESS
               then Inr (s\<lparr>config' := new_config\<rparr>, new_config,
                         [Call_uvc_set uvc_set_exposure_abs (devh' s) 200,
                          ROS_INFO ''Set exposure_absolute to %d''])
               else Inr (s, config' s,
                         [Call_uvc_set uvc_set_exposure_abs (devh' s) 200,
                          ROS_WARN ''Unable to set exposure_absolute to %d'']))"
    if "level AND kReconfigureClose e \<noteq> kReconfigureClose e"
    unfolding assms(4) using assms(1-3) that by (rule ReconfigureCallback_exposure_direct)
  have general: "control_writes tr = [Call_uvc_set uvc_set_exposure_abs (devh' s1) 200] \<and>
            exposure_absolute (config' s1) =
              (if uvc_set e uvc_set_exposure_abs (devh' s1) 200 = UVC_SUCCESS
               then double_0_02 else double_0_01)"
    if r: "ReconfigureCallback e s new_config level = Inr (s1, nc1, tr)"
      and run: "state' s1 = kRunning" for s1 nc1 tr
    using assms(1) r
  proof (elim ReconfigureCallback_InrE)
    fix s3 t0
    assume h: "config' s3 = config' s" "control_writes t0 = []"
      "state' s3 \<noteq> kRunning \<longrightarrow> s1 = s3 \<and> nc1 = new_config \<and> tr = t0"
      "state' s3 = kRunning \<longrightarrow>
         (\<exists>t4. set_controls e s3 new_config = Inr (nc1, t4) \<and>
               s1 = s3\<lparr>config' := nc1\<rparr> \<and> tr = t0 @ t4)"
    from h(3) run have run3: "state' s3 = kRunning"
      by auto
    with h(4) obtain t4 where
      sc: "set_controls e s3 new_config = Inr (nc1, t4)" and
      s1: "s1 = s3\<lparr>config' := nc1\<rparr>" and tr: "tr = t0 @ t4"
      by blast
    have e3: "exposure_absolute (config' s3) = double_0_01"
      using h(1) assms(3) by simp
    have nc: "new_config = (config' s3)\<lparr>exposure_absolute := double_0_02\<rparr>"
      using h(1) assms(4) by simp
    from set_controls_exposure_only [OF e3, of e] sc s1 tr h(2) e3 show ?thesis
      unfolding nc
      by (auto simp: control_writes_simps is_control_write_def split: if_splits)
  qed
  show ?thesis
    using direct general by blast
qed

theorem ReconfigureCallback_exposure_only_witness:
  "\<not> creation' ex_driver \<and> state' ex_driver = kRunning \<and>
   exposure_absolute (config' ex_driver) = double_0_01 \<and>
   ex_exposure_config = (config' ex_driver)\<lparr>exposure_absolute := double_0_02\<rparr> \<and>
   0 AND kReconfigureClose ex_env \<noteq> kReconfigureClose ex_env \<and>
   ReconfigureCallback ex_env ex_driver ex_exposure_config 0 =
     Inr (ex_driver\<lparr>config' := ex_exposure_config\<rparr>, ex_exposure_config,
          [Call_uvc_set uvc_set_exposure_abs (Some 3) 200,
           ROS_INFO ''Set exposure_absolute to %d'']) \<and>
   state' (ex_driver\<lparr>config' := ex_exposure_config\<rparr>) = kRunning \<and>
   control_writes [Call_uvc_set uvc_set_exposure_abs (Some 3) 200,
                   ROS_INFO ''Set exposure_absolute to %d''] =
     [Call_uvc_set uvc_set_exposure_abs (Some 3) 200] \<and>
   exposure_absolute (config' (ex_driver\<lparr>config' := ex_exposure_config\<rparr>)) = double_0_02"
proof -
  have h: "\<not> creation' ex_driver" "state' ex_driver = kRunning"
    "exposure_absolute (config' ex_driver) = double_0_01"
    "ex_exposure_config = (config' ex_driver)\<lparr>exposure_absolute := double_0_02\<rparr>"
    by (simp_all add: ex_driver_def ex_config_def ex_exposure_config_def)
  have l: "0 AND kReconfigureClose ex_env \<noteq> kReconfigureClose ex_env"
    by (simp add: ex_env_def)
  have a: "uvc_set ex_env uvc_set_exposure_abs (devh' ex_driver) 200 = UVC_SUCCESS"
    "devh' ex_driver = Some 3"
    "uvc_set ex_env uvc_set_exposure_abs (Some 3) 200 = UVC_SUCCESS"
    by (simp_all add: ex_env_def ex_driver_def)
  note t = ReconfigureCallback_exposure_only [OF h, of 0 ex_env]
  from t [THEN conjunct1] l a
  have r: "ReconfigureCallback ex_env ex_driver ex_exposure_config 0 =
     Inr (ex_driver\<lparr>config' := ex_exposure_config\<rparr>, ex_exposure_config,
          [Call_uvc_set uvc_set_exposure_abs (Some 3) 200,
           ROS_INFO ''Set exposure_absolute to %d''])"
    by simp
  have run: "state' (ex_driver\<lparr>config' := ex_exposure_config\<rparr>) = kRunning"
    "devh' (ex_driver\<lparr>config' := ex_exposure_config\<rparr>) = Some 3"
    using h(2) a(2) by simp_all
  from t [THEN conjunct2, rule_format, OF conjI [OF r run(1)]]
  have w: "control_writes [Call_uvc_set uvc_set_exposure_abs (Some 3) 200,
                   ROS_INFO ''Set exposure_absolute to %d''] =
     [Call_uvc_set uvc_set_exposure_abs (Some 3) 200] \<and>
   exposure_absolute (config' (ex_driver\<lparr>config' := ex_exposure_config\<rparr>)) = double_0_02"
    unfolding run(2) using a(3) by simp
  from h l r run(1) w show ?thesis
    by (intro conjI) (erule conjunct1 conjunct2 | assumption)+
qed

end
